theory Spec2Isabelle
  imports Main "HOL-Library.Word"
begin

unbundle bit_operations_syntax

section \<open>Common conventions\<close>

text \<open>
  Pointers are options (\<open>None\<close> is the null pointer). C arrays of fixed size
  (\<open>WSIALLOC_MAX_PLANES\<close> entries) are functions from the index; arrays reached through
  a pointer are lists, and an access beyond the list is the fault \<open>OutOfBounds\<close>.
  Every function of the source that can dereference a null pointer, index out of range,
  divide by zero, shift by the width of the type or more, or fail an \<open>assert\<close> returns
  \<open>fault + 'a\<close>. Assertions are compiled
  out when \<open>NDEBUG\<close> is defined: the functions whose assertions depend on their input
  take the flag \<open>ndebug\<close>.

  Machine integers: \<open>uint8_t\<close>, \<open>uint32_t\<close>, \<open>uint64_t\<close> are words of that width;
  an \<open>int\<close> is a \<open>32 word\<close> read with \<open>sint\<close>; \<open>size_t\<close> is 64 bits wide.
\<close>

datatype fault = NullDeref | OutOfBounds | AssertFail | DivByZero | BadShift

type_synonym u8 = "8 word"
type_synonym u32 = "32 word"
type_synonym u64 = "64 word"
type_synonym c_int = "32 word"

section \<open>The allocator: util/wsialloc/wsialloc_helpers.c\<close>

datatype wsialloc_error =
    WSIALLOC_ERROR_NONE
  | WSIALLOC_ERROR_INVALID
  | WSIALLOC_ERROR_NOT_SUPPORTED
  | WSIALLOC_ERROR_NO_RESOURCE

text \<open>
  The structures of the interface header \<open>wsialloc.h\<close> and of \<open>format_table.h\<close>, with
  the fields that the sources under verification read and write. \<open>width\<close> and
  \<open>height\<close> are \<open>uint32_t\<close>, \<open>format_count\<close> is \<open>unsigned\<close>, both flag sets are
  \<open>uint64_t\<close>.
\<close>

record wsialloc_format =
  fourcc :: u32
  modifier :: u64
  format_flags :: u64

record fmt_spec =
  drm_format :: u32
  nr_planes :: u8
  bpp :: "nat \<Rightarrow> u8"

record wsialloc_allocate_info =
  formats :: "wsialloc_format list option"
  format_count :: u32
  width :: u32
  height :: u32
  flags :: u64

record wsialloc_allocate_result =
  format :: wsialloc_format
  average_row_strides :: "nat \<Rightarrow> c_int"
  offsets :: "nat \<Rightarrow> u32"
  buffer_fds :: "nat \<Rightarrow> c_int"
  is_disjoint :: bool

record wsialloc_format_descriptor =
  desc_format :: wsialloc_format
  format_spec :: fmt_spec

text \<open>
  What the sources take from headers that are not part of them: the format table and
  the two allocation flag bits. They are parameters of the model.
\<close>

record wsialloc_decls =
  fourcc_format_table :: "fmt_spec list"
  WSIALLOC_ALLOCATE_PROTECTED :: u64
  WSIALLOC_ALLOCATE_NO_MEMORY :: u64

definition WSIALLOCP_MIN_ALIGN_SZ :: u32 where
  "WSIALLOCP_MIN_ALIGN_SZ = 64"

definition MAX_IMAGE_SIZE :: u32 where
  "MAX_IMAGE_SIZE = 128000"

definition WSIALLOC_MAX_PLANES :: nat where
  "WSIALLOC_MAX_PLANES = 4"

text \<open>From the kernel's \<open>drm_fourcc.h\<close>: the linear modifier is 0, the big-endian bit is bit 31.\<close>

definition DRM_FORMAT_MOD_LINEAR :: u64 where
  "DRM_FORMAT_MOD_LINEAR = 0"

definition DRM_FORMAT_BIG_ENDIAN :: u32 where
  "DRM_FORMAT_BIG_ENDIAN = push_bit 31 1"

text \<open>
  \<open>(size + 64u - 1) & ~(64u - 1)\<close>: the sum is computed in 64 bits, the mask
  \<open>~(64u - 1)\<close> in 32 bits (\<open>unsigned int\<close>) and zero-extended for the conjunction.
\<close>

definition round_size_up_to_align :: "u64 \<Rightarrow> u64" where
  "round_size_up_to_align sz =
     (sz + ucast WSIALLOCP_MIN_ALIGN_SZ - 1) AND ucast (NOT (WSIALLOCP_MIN_ALIGN_SZ - 1))"

text \<open>
  The plane loop of \<open>calculate_format_properties\<close>. The state is
  \<open>(strides, offsets, size)\<close>. \<open>info->width * plane_bytes_per_pixel\<close> is an
  \<open>unsigned int\<close> product, widened for \<open>round_size_up_to_align\<close>, whose result is
  narrowed to the \<open>int\<close> stride; \<open>strides[plane] * info->height\<close> is again an
  \<open>unsigned int\<close> product (\<open>int\<close> times \<open>uint32_t\<close>), widened when added to \<open>size\<close>.
\<close>

fun plane_loop ::
  "bool \<Rightarrow> (nat \<Rightarrow> u8) \<Rightarrow> wsialloc_allocate_info \<Rightarrow> nat list \<Rightarrow>
   (nat \<Rightarrow> c_int) \<times> (nat \<Rightarrow> u32) \<times> u64 \<Rightarrow> fault + (nat \<Rightarrow> c_int) \<times> (nat \<Rightarrow> u32) \<times> u64" where
  "plane_loop ndebug bits_per_pixel info [] st = Inr st"
| "plane_loop ndebug bits_per_pixel info (plane # planes) (strides, offs, sz) =
     (let plane_bytes_per_pixel = (ucast (bits_per_pixel plane div 8) :: u32) in
      if \<not> ndebug \<and> plane_bytes_per_pixel * 8 \<noteq> ucast (bits_per_pixel plane) then Inl AssertFail
      else
        let stride = (ucast (round_size_up_to_align (ucast (width info * plane_bytes_per_pixel))) :: c_int);
            strides' = strides(plane := stride);
            offs' = offs(plane := ucast sz);
            sz' = sz + ucast (stride * height info)
        in plane_loop ndebug bits_per_pixel info planes (strides', offs', sz'))"

text \<open>
  \<open>calculate_format_properties\<close> returns the error code together with the three
  output parameters \<open>strides\<close>, \<open>offsets\<close> and \<open>*total_size\<close>, which the two early
  returns leave as they were.
\<close>

definition calculate_format_properties ::
  "bool \<Rightarrow> wsialloc_format_descriptor \<Rightarrow> wsialloc_allocate_info \<Rightarrow>
   (nat \<Rightarrow> c_int) \<Rightarrow> (nat \<Rightarrow> u32) \<Rightarrow> u64 \<Rightarrow>
   fault + wsialloc_error \<times> (nat \<Rightarrow> c_int) \<times> (nat \<Rightarrow> u32) \<times> u64" where
  "calculate_format_properties ndebug descriptor info strides offs total_size =
     (let bits_per_pixel = bpp (format_spec descriptor);
          modifier' = modifier (desc_format descriptor);
          num_planes = (ucast (nr_planes (format_spec descriptor)) :: u32)
      in if modifier' \<noteq> DRM_FORMAT_MOD_LINEAR then
           Inr (WSIALLOC_ERROR_NOT_SUPPORTED, strides, offs, total_size)
         else if num_planes > 1 then
           Inr (WSIALLOC_ERROR_NOT_SUPPORTED, strides, offs, total_size)
         else
           (case plane_loop ndebug bits_per_pixel info [0..<unat num_planes] (strides, offs, 0) of
              Inl f \<Rightarrow> Inl f
            | Inr (strides', offs', sz) \<Rightarrow> Inr (WSIALLOC_ERROR_NONE, strides', offs', sz)))"

text \<open>\<open>find_format\<close>: the first table entry whose code equals the masked fourcc.\<close>

fun find_format_loop :: "bool \<Rightarrow> fmt_spec list \<Rightarrow> u32 \<Rightarrow> fault + fmt_spec option" where
  "find_format_loop ndebug [] fcc = Inr None"
| "find_format_loop ndebug (e # es) fcc =
     (if fcc = drm_format e then
        (if \<not> ndebug \<and> \<not> unat (nr_planes e) \<le> WSIALLOC_MAX_PLANES then Inl AssertFail
         else Inr (Some e))
      else find_format_loop ndebug es fcc)"

definition find_format :: "bool \<Rightarrow> wsialloc_decls \<Rightarrow> u32 \<Rightarrow> fault + fmt_spec option" where
  "find_format ndebug D fcc =
     find_format_loop ndebug (fourcc_format_table D) (fcc AND NOT DRM_FORMAT_BIG_ENDIAN)"

text \<open>
  \<open>validate_parameters\<close>: \<open>allocator\<close> and \<open>result\<close> are compared with null, \<open>info\<close>
  is dereferenced without a check.
\<close>

definition validate_parameters ::
  "'a option \<Rightarrow> wsialloc_allocate_info option \<Rightarrow> wsialloc_allocate_result option \<Rightarrow> fault + bool" where
  "validate_parameters allocator info result =
     (if allocator = None then Inr False
      else if result = None then Inr False
      else (case info of
              None \<Rightarrow> Inl NullDeref
            | Some i \<Rightarrow>
                if format_count i = 0 \<or> formats i = None then Inr False
                else if width i < 1 \<or> height i < 1 \<or> width i > MAX_IMAGE_SIZE \<or> height i > MAX_IMAGE_SIZE
                then Inr False
                else Inr True))"


text \<open>
  The walk over \<open>info->formats\<close> in \<open>wsiallocp_alloc\<close>. The loop state is
  \<open>(err, selected_format_desc, local_strides, local_offsets, total_size)\<close>; \<open>Inr\<close> of
  the state is what the loop leaves behind, by \<open>break\<close> or by running out of candidates.
\<close>

type_synonym walk_state =
  "wsialloc_error \<times> wsialloc_format_descriptor \<times> (nat \<Rightarrow> c_int) \<times> (nat \<Rightarrow> u32) \<times> u64"

fun format_walk ::
  "bool \<Rightarrow> wsialloc_decls \<Rightarrow> wsialloc_allocate_info \<Rightarrow> wsialloc_format list \<Rightarrow> nat list \<Rightarrow>
   walk_state \<Rightarrow> fault + walk_state" where
  "format_walk ndebug D info fs [] st = Inr st"
| "format_walk ndebug D info fs (i # is) (err, selected, strides, offs, total_size) =
     (if \<not> i < length fs then Inl OutOfBounds
      else
        let current_format = fs ! i in
        case find_format ndebug D (fourcc current_format) of
          Inl f \<Rightarrow> Inl f
        | Inr None \<Rightarrow>
            format_walk ndebug D info fs is (WSIALLOC_ERROR_NOT_SUPPORTED, selected, strides, offs, total_size)
        | Inr (Some spec) \<Rightarrow>
            let current_format_desc = \<lparr>desc_format = current_format, format_spec = spec\<rparr> in
            (case calculate_format_properties ndebug current_format_desc info strides offs total_size of
               Inl f \<Rightarrow> Inl f
             | Inr (err', strides', offs', total_size') \<Rightarrow>
                 if err' \<noteq> WSIALLOC_ERROR_NONE
                 then format_walk ndebug D info fs is (err', selected, strides', offs', total_size')
                 else Inr (err', current_format_desc, strides', offs', total_size')))"

text \<open>\<open>wsialloc_format_descriptor selected_format_desc = {}\<close>: all fields zero.\<close>

definition zero_format_descriptor :: wsialloc_format_descriptor where
  "zero_format_descriptor =
     \<lparr>desc_format = \<lparr>fourcc = 0, modifier = 0, format_flags = 0\<rparr>,
      format_spec = \<lparr>drm_format = 0, nr_planes = 0, bpp = (\<lambda>_. 0)\<rparr>\<rparr>"

text \<open>
  The two local arrays are not initialised by the source; they are read only at the
  planes of the selected format, which \<open>calculate_format_properties\<close> has written.
\<close>

definition initial_walk_state :: walk_state where
  "initial_walk_state = (WSIALLOC_ERROR_NONE, zero_format_descriptor, (\<lambda>_. 0), (\<lambda>_. 0), 0)"

definition select_format ::
  "bool \<Rightarrow> wsialloc_decls \<Rightarrow> wsialloc_allocate_info \<Rightarrow> wsialloc_format list \<Rightarrow> fault + walk_state" where
  "select_format ndebug D info fs =
     format_walk ndebug D info fs [0..<unat (format_count info)] initial_walk_state"

text \<open>The copy of the first descriptor into the other plane slots, and of strides and offsets.\<close>

fun share_fd :: "nat list \<Rightarrow> (nat \<Rightarrow> c_int) \<Rightarrow> (nat \<Rightarrow> c_int)" where
  "share_fd [] fds = fds"
| "share_fd (plane # planes) fds = share_fd planes (fds(plane := fds 0))"

fun copy_planes ::
  "nat list \<Rightarrow> (nat \<Rightarrow> c_int) \<Rightarrow> (nat \<Rightarrow> u32) \<Rightarrow> wsialloc_allocate_result \<Rightarrow> wsialloc_allocate_result" where
  "copy_planes [] local_strides local_offsets r = r"
| "copy_planes (plane # planes) local_strides local_offsets r =
     copy_planes planes local_strides local_offsets
       (r\<lparr>average_row_strides := (average_row_strides r)(plane := local_strides plane),
          offsets := (offsets r)(plane := local_offsets plane)\<rparr>)"

text \<open>
  \<open>wsiallocp_alloc\<close> returns the error code, the structure behind \<open>result\<close> and the
  list of the sizes with which it has called \<open>fn_alloc\<close> (the callback that asks the
  kernel heap for memory), in call order.
\<close>

type_synonym 'a wsiallocp_alloc_callback = "'a \<Rightarrow> wsialloc_allocate_info \<Rightarrow> u64 \<Rightarrow> fault + c_int"

definition wsiallocp_alloc ::
  "bool \<Rightarrow> wsialloc_decls \<Rightarrow> 'a option \<Rightarrow> 'a wsiallocp_alloc_callback \<Rightarrow>
   wsialloc_allocate_info option \<Rightarrow> wsialloc_allocate_result option \<Rightarrow>
   fault + wsialloc_error \<times> wsialloc_allocate_result option \<times> u64 list" where
  "wsiallocp_alloc ndebug D allocator fn_alloc info result =
     (case validate_parameters allocator info result of
        Inl f \<Rightarrow> Inl f
      | Inr False \<Rightarrow> Inr (WSIALLOC_ERROR_INVALID, result, [])
      | Inr True \<Rightarrow>
          (case (allocator, info, result) of
             (Some a, Some i, Some r) \<Rightarrow>
               (case formats i of
                  None \<Rightarrow> Inl NullDeref
                | Some fs \<Rightarrow>
                    (case select_format ndebug D i fs of
                       Inl f \<Rightarrow> Inl f
                     | Inr (err, selected_format_desc, local_strides, local_offsets, total_size) \<Rightarrow>
                         if err \<noteq> WSIALLOC_ERROR_NONE then Inr (err, Some r, [])
                         else
                           let planes = unat (nr_planes (format_spec selected_format_desc));
                               populate = (\<lambda>r0.
                                 (copy_planes [0..<planes] local_strides local_offsets
                                    (r0\<lparr>format := desc_format selected_format_desc\<rparr>))
                                 \<lparr>is_disjoint := False\<rparr>)
                           in if flags i AND WSIALLOC_ALLOCATE_NO_MEMORY D = 0 then
                                (case fn_alloc a i total_size of
                                   Inl f \<Rightarrow> Inl f
                                 | Inr fd \<Rightarrow>
                                     if sint fd < 0 then Inr (WSIALLOC_ERROR_NO_RESOURCE, Some r, [total_size])
                                     else
                                       let r1 = r\<lparr>buffer_fds := share_fd [1..<planes] ((buffer_fds r)(0 := fd))\<rparr>
                                       in Inr (WSIALLOC_ERROR_NONE, Some (populate r1), [total_size]))
                              else Inr (WSIALLOC_ERROR_NONE, Some (populate r), [])))
           | _ \<Rightarrow> Inl NullDeref))"

section \<open>The DMA-BUF heap adaptor: util/wsialloc/wsialloc_dma_buf_heaps.c\<close>

record wsialloc_allocator_dma_buf_heaps =
  memory_fd :: c_int
  protected_fd :: c_int

text \<open>
  The kernel is a parameter: \<open>ioctl(fd, DMA_HEAP_IOCTL_ALLOC, &heap_data)\<close> on a
  descriptor and a length gives the return value, \<open>errno\<close> and \<open>heap_data.fd\<close>.
\<close>

type_synonym dma_heap_ioctl = "c_int \<Rightarrow> u64 \<Rightarrow> c_int \<times> c_int \<times> u32"

definition allocate_dma_buf_heaps :: "bool \<Rightarrow> dma_heap_ioctl \<Rightarrow> c_int \<Rightarrow> u64 \<Rightarrow> fault + c_int" where
  "allocate_dma_buf_heaps ndebug ioctl fd sz =
     (if \<not> ndebug \<and> \<not> sz > 0 then Inl AssertFail
      else if \<not> ndebug \<and> fd = - 1 then Inl AssertFail
      else
        (case ioctl fd sz of
           (ret, errno, heap_fd) \<Rightarrow>
             if ret \<noteq> 0 then Inr (- errno)
             else if \<not> ndebug \<and> \<not> heap_fd > 0 then Inl AssertFail
             else Inr (ucast heap_fd)))"

definition dma_allocate ::
  "bool \<Rightarrow> wsialloc_decls \<Rightarrow> dma_heap_ioctl \<Rightarrow>
   wsialloc_allocator_dma_buf_heaps wsiallocp_alloc_callback" where
  "dma_allocate ndebug D ioctl allocator info sz =
     (if \<not> ndebug \<and> \<not> sz > 0 then Inl AssertFail
      else
        let alloc_fd = (if flags info AND WSIALLOC_ALLOCATE_PROTECTED D \<noteq> 0
                        then protected_fd allocator else memory_fd allocator)
        in if sint alloc_fd < 0 then (if \<not> ndebug then Inl AssertFail else Inr (- 1))
           else allocate_dma_buf_heaps ndebug ioctl alloc_fd sz)"

definition wsialloc_alloc_dma_buf_heaps ::
  "bool \<Rightarrow> wsialloc_decls \<Rightarrow> dma_heap_ioctl \<Rightarrow> wsialloc_allocator_dma_buf_heaps option \<Rightarrow>
   wsialloc_allocate_info option \<Rightarrow> wsialloc_allocate_result option \<Rightarrow>
   fault + wsialloc_error \<times> wsialloc_allocate_result option \<times> u64 list" where
  "wsialloc_alloc_dma_buf_heaps ndebug D ioctl allocator info result =
     (case (allocator, info) of
        (Some a, Some i) \<Rightarrow>
          let fd_to_use = (if flags i AND WSIALLOC_ALLOCATE_PROTECTED D \<noteq> 0
                           then protected_fd a else memory_fd a)
          in if sint fd_to_use < 0 then Inr (WSIALLOC_ERROR_NO_RESOURCE, result, [])
             else wsiallocp_alloc ndebug D allocator (dma_allocate ndebug D ioctl) info result
      | _ \<Rightarrow> Inl NullDeref)"

section \<open>The ION adaptor: util/wsialloc/wsialloc_ion.c\<close>

record wsialloc_allocator_ion =
  fd :: c_int
  alloc_heap_id :: u32
  protected_alloc_heap_id :: u32
  protected_heap_exists :: bool

text \<open>From the kernel's \<open>ion.h\<close>: an entry of the heap query, and the DMA heap type.\<close>

record ion_heap_data =
  heap_type :: u32
  heap_id :: u32

definition ION_HEAP_TYPE_DMA :: u32 where
  "ION_HEAP_TYPE_DMA = 4"

text \<open>
  \<open>ioctl(fd, ION_IOC_HEAP_QUERY, &query)\<close> gives its return value and the entries that
  the kernel has written, \<open>query.cnt\<close> of them. \<open>ioctl(fd, ION_IOC_ALLOC, &alloc)\<close> on a
  length and a heap mask gives its return value and \<open>alloc.fd\<close>.
\<close>

type_synonym ion_heap_query = "c_int \<Rightarrow> c_int \<times> ion_heap_data list"
type_synonym ion_ioctl_alloc = "c_int \<Rightarrow> u64 \<Rightarrow> u32 \<Rightarrow> c_int \<times> u32"

fun heap_scan :: "ion_heap_data list \<Rightarrow> c_int \<Rightarrow> c_int" where
  "heap_scan [] alloc_heap_id' = alloc_heap_id'"
| "heap_scan (h # hs) alloc_heap_id' =
     (if ION_HEAP_TYPE_DMA = heap_type h then ucast (heap_id h) else heap_scan hs alloc_heap_id')"

definition find_alloc_heap_id :: "bool \<Rightarrow> ion_heap_query \<Rightarrow> c_int \<Rightarrow> fault + c_int" where
  "find_alloc_heap_id ndebug query fd' =
     (if \<not> ndebug \<and> fd' = - 1 then Inl AssertFail
      else
        (case query fd' of
           (ret, heaps) \<Rightarrow> if sint ret < 0 then Inr ret else Inr (heap_scan heaps (- 1))))"

definition allocate_ion :: "bool \<Rightarrow> ion_ioctl_alloc \<Rightarrow> c_int \<Rightarrow> u64 \<Rightarrow> u32 \<Rightarrow> fault + c_int" where
  "allocate_ion ndebug ioctl fd' sz heap_id' =
     (if \<not> ndebug \<and> \<not> sz > 0 then Inl AssertFail
      else if \<not> ndebug \<and> fd' = - 1 then Inl AssertFail
      else if \<not> unat heap_id' < 32 then Inl BadShift
      else
        (case ioctl fd' sz (push_bit (unat heap_id') 1) of
           (ret, alloc_fd) \<Rightarrow> if sint ret < 0 then Inr ret else Inr (ucast alloc_fd)))"

text \<open>
  \<open>wsialloc_delete\<close> gives the descriptors it has closed. On a null pointer its
  assertion fails; without assertions it returns at once.
\<close>

definition wsialloc_delete_ion :: "bool \<Rightarrow> wsialloc_allocator_ion option \<Rightarrow> fault + c_int list" where
  "wsialloc_delete_ion ndebug allocator =
     (case allocator of
        None \<Rightarrow> if \<not> ndebug then Inl AssertFail else Inr []
      | Some a \<Rightarrow> if sint (fd a) \<ge> 0 then Inr [fd a] else Inr [])"

text \<open>
  \<open>wsialloc_new\<close>: \<open>malloc_ok\<close> says whether \<open>malloc\<close> has returned memory,
  \<open>uninit\<close> is what that memory holds, \<open>open_res\<close> is the result of opening
  \<open>/dev/ion\<close>. The result of \<open>find_alloc_heap_id\<close>, an \<open>int\<close>, is stored in the field
  \<open>alloc_heap_id\<close>, a \<open>uint32_t\<close>, and that field is compared with 0. The function gives
  the error code, \<open>*allocator\<close> when it has been written, and the descriptors closed.
\<close>

definition wsialloc_new_ion ::
  "bool \<Rightarrow> bool \<Rightarrow> wsialloc_allocator_ion \<Rightarrow> c_int \<Rightarrow> ion_heap_query \<Rightarrow>
   fault + wsialloc_error \<times> wsialloc_allocator_ion option \<times> c_int list" where
  "wsialloc_new_ion ndebug malloc_ok uninit open_res query =
     (if \<not> malloc_ok then
        (case wsialloc_delete_ion ndebug None of
           Inl f \<Rightarrow> Inl f
         | Inr closed \<Rightarrow> Inr (WSIALLOC_ERROR_NO_RESOURCE, None, closed))
      else
        let ion = uninit\<lparr>fd := open_res\<rparr> in
        if sint (fd ion) < 0 then
          (case wsialloc_delete_ion ndebug (Some ion) of
             Inl f \<Rightarrow> Inl f
           | Inr closed \<Rightarrow> Inr (WSIALLOC_ERROR_NO_RESOURCE, None, closed))
        else
          (case find_alloc_heap_id ndebug query (fd ion) of
             Inl f \<Rightarrow> Inl f
           | Inr heap_id' \<Rightarrow>
               let ion = ion\<lparr>alloc_heap_id := ucast heap_id'\<rparr> in
               if alloc_heap_id ion < 0 then
                 (case wsialloc_delete_ion ndebug (Some ion) of
                    Inl f \<Rightarrow> Inl f
                  | Inr closed \<Rightarrow> Inr (WSIALLOC_ERROR_NO_RESOURCE, None, closed))
               else
                 let ion = ion\<lparr>protected_heap_exists := False\<rparr>
                 in Inr (WSIALLOC_ERROR_NONE, Some ion, [])))"

definition ion_allocate ::
  "bool \<Rightarrow> wsialloc_decls \<Rightarrow> ion_ioctl_alloc \<Rightarrow> wsialloc_allocator_ion wsiallocp_alloc_callback" where
  "ion_allocate ndebug D ioctl allocator info sz =
     (if \<not> ndebug \<and> fd allocator = - 1 then Inl AssertFail
      else if \<not> ndebug \<and> \<not> sz > 0 then Inl AssertFail
      else if flags info AND WSIALLOC_ALLOCATE_PROTECTED D \<noteq> 0 then
        (if \<not> protected_heap_exists allocator
         then (if \<not> ndebug then Inl AssertFail else Inr (- 1))
         else allocate_ion ndebug ioctl (fd allocator) sz (protected_alloc_heap_id allocator))
      else allocate_ion ndebug ioctl (fd allocator) sz (alloc_heap_id allocator))"

definition wsialloc_alloc_ion ::
  "bool \<Rightarrow> wsialloc_decls \<Rightarrow> ion_ioctl_alloc \<Rightarrow> wsialloc_allocator_ion option \<Rightarrow>
   wsialloc_allocate_info option \<Rightarrow> wsialloc_allocate_result option \<Rightarrow>
   fault + wsialloc_error \<times> wsialloc_allocate_result option \<times> u64 list" where
  "wsialloc_alloc_ion ndebug D ioctl allocator info result =
     (case info of
        None \<Rightarrow> Inl NullDeref
      | Some i \<Rightarrow>
          if flags i AND WSIALLOC_ALLOCATE_PROTECTED D \<noteq> 0 then
            (case allocator of
               None \<Rightarrow> Inl NullDeref
             | Some a \<Rightarrow>
                 if \<not> protected_heap_exists a then Inr (WSIALLOC_ERROR_NO_RESOURCE, result, [])
                 else wsiallocp_alloc ndebug D allocator (ion_allocate ndebug D ioctl) info result)
          else wsiallocp_alloc ndebug D allocator (ion_allocate ndebug D ioctl) info result)"

subsection \<open>Format selection in the words of the specification\<close>

text \<open>
  The table lookup of the specification: the big-endian bit is masked off the fourcc,
  and the first record with that code is returned, or none.
\<close>

definition table_lookup :: "wsialloc_decls \<Rightarrow> u32 \<Rightarrow> fmt_spec option" where
  "table_lookup D fcc =
     find (\<lambda>e. drm_format e = fcc AND NOT DRM_FORMAT_BIG_ENDIAN) (fourcc_format_table D)"

text \<open>A candidate that resolves in the table with plane count 1 and has the linear modifier.\<close>

definition acceptable_candidate :: "wsialloc_decls \<Rightarrow> wsialloc_format \<Rightarrow> bool" where
  "acceptable_candidate D c =
     (case table_lookup D (fourcc c) of
        None \<Rightarrow> False
      | Some spec \<Rightarrow> nr_planes spec = 1 \<and> modifier c = DRM_FORMAT_MOD_LINEAR)"

text \<open>
  What is assumed of the format table, which is not among the sources. The sources assert
  that a format has at most \<open>WSIALLOC_MAX_PLANES\<close> planes and that the bits per pixel of
  a plane are a multiple of 8. That a format has at least one plane is asserted nowhere in
  the sources; it is an assumption, which the specification implies when it speaks of the
  single plane of an accepted format.
\<close>

definition table_wf :: "wsialloc_decls \<Rightarrow> bool" where
  "table_wf D =
     list_all (\<lambda>e. 1 \<le> unat (nr_planes e) \<and> unat (nr_planes e) \<le> WSIALLOC_MAX_PLANES \<and>
                    list_all (\<lambda>p. unat (bpp e p) mod 8 = 0) [0..<unat (nr_planes e)])
       (fourcc_format_table D)"

text \<open>
  A request that respects the input contract: \<open>fs\<close> is the array behind
  \<open>info->formats\<close>, it holds at least \<open>format_count\<close> candidates, \<open>format_count\<close> is
  not 0 and both dimensions are in \<open>[1, MAX_IMAGE_SIZE]\<close>.
\<close>

definition valid_request :: "wsialloc_allocate_info \<Rightarrow> wsialloc_format list \<Rightarrow> bool" where
  "valid_request i fs =
     (formats i = Some fs \<and> format_count i \<noteq> 0 \<and> unat (format_count i) \<le> length fs \<and>
      1 \<le> width i \<and> width i \<le> MAX_IMAGE_SIZE \<and> 1 \<le> height i \<and> height i \<le> MAX_IMAGE_SIZE)"

text \<open>The row stride of the specification: \<open>width * (bpp / 8)\<close> rounded up to a multiple of 64.\<close>

definition spec_stride :: "u32 \<Rightarrow> u8 \<Rightarrow> nat" where
  "spec_stride w b = (unat w * (unat b div 8) + 63) div 64 * 64"

subsection \<open>Example data\<close>

text \<open>
  Two entries as a format table has them (\<open>XR24\<close>: one plane of 32 bits; \<open>NV12\<close>: two
  planes of 8 and 16 bits), flag bits, and the request of scenario S4 of the
  specification: an unknown fourcc, then \<open>XR24\<close> linear, then \<open>NV12\<close> linear.
\<close>

definition example_XR24 :: fmt_spec where
  "example_XR24 = \<lparr>drm_format = 0x34325258, nr_planes = 1, bpp = (\<lambda>p. if p = 0 then 32 else 0)\<rparr>"

definition example_NV12 :: fmt_spec where
  "example_NV12 =
     \<lparr>drm_format = 0x3231564E, nr_planes = 2, bpp = (\<lambda>p. if p = 0 then 8 else if p = 1 then 16 else 0)\<rparr>"

definition example_decls :: wsialloc_decls where
  "example_decls =
     \<lparr>fourcc_format_table = [example_NV12, example_XR24],
      WSIALLOC_ALLOCATE_PROTECTED = 1, WSIALLOC_ALLOCATE_NO_MEMORY = 2\<rparr>"

definition example_formats :: "wsialloc_format list" where
  "example_formats =
     [\<lparr>fourcc = 0x11111111, modifier = 0, format_flags = 0\<rparr>,
      \<lparr>fourcc = 0x34325258, modifier = 0, format_flags = 0\<rparr>,
      \<lparr>fourcc = 0x3231564E, modifier = 0, format_flags = 0\<rparr>]"

definition example_info :: wsialloc_allocate_info where
  "example_info =
     \<lparr>formats = Some example_formats, format_count = 3, width = 1920, height = 1080, flags = 0\<rparr>"

definition example_result :: wsialloc_allocate_result where
  "example_result =
     \<lparr>format = \<lparr>fourcc = 0, modifier = 0, format_flags = 0\<rparr>,
      average_row_strides = (\<lambda>_. 0), offsets = (\<lambda>_. 0), buffer_fds = (\<lambda>_. - 1),
      is_disjoint = True\<rparr>"

text \<open>The largest request that passes validation: 128000 by 128000 pixels of \<open>XR24\<close>.\<close>

definition largest_info :: wsialloc_allocate_info where
  "largest_info =
     \<lparr>formats = Some [\<lparr>fourcc = 0x34325258, modifier = 0, format_flags = 0\<rparr>], format_count = 1,
      width = 128000, height = 128000, flags = 0\<rparr>"

definition largest_descriptor :: wsialloc_format_descriptor where
  "largest_descriptor =
     \<lparr>desc_format = \<lparr>fourcc = 0x34325258, modifier = 0, format_flags = 0\<rparr>,
      format_spec = example_XR24\<rparr>"

text \<open>An allocation callback that finds no memory, and one that gives the descriptor 5.\<close>

definition failing_callback :: "unit wsiallocp_alloc_callback" where
  "failing_callback allocator info sz = Inr (- 1)"

definition succeeding_callback :: "unit wsiallocp_alloc_callback" where
  "succeeding_callback allocator info sz = Inr 5"

text \<open>Allocators as \<open>wsialloc_new\<close> leaves them: no protected heap.\<close>

definition example_dma_allocator :: wsialloc_allocator_dma_buf_heaps where
  "example_dma_allocator = \<lparr>memory_fd = 3, protected_fd = - 1\<rparr>"

definition example_ion_allocator :: wsialloc_allocator_ion where
  "example_ion_allocator =
     \<lparr>fd = 3, alloc_heap_id = 0, protected_alloc_heap_id = 0, protected_heap_exists = False\<rparr>"

section \<open>The swapchain: wsi/swapchain_base.cpp\<close>

text \<open>
  The result codes and present modes of the Vulkan headers that the source uses, the image
  states of \<open>swapchain_image\<close>, and the members of \<open>swapchain_base\<close> that the modelled
  methods read and write. Handles (\<open>VkImage\<close>, \<open>VkFence\<close>, \<open>VkSwapchainKHR\<close>, ...)
  are 64-bit values, \<open>VK_NULL_HANDLE\<close> is 0. The image count and the fields of the ring
  are \<open>uint32_t\<close>, as the loops of the source index them. A swapchain handle is the address of a
  \<open>swapchain_base\<close> object; the objects live in a store from handles to objects.
\<close>

datatype VkResult =
    VK_SUCCESS
  | VK_NOT_READY
  | VK_TIMEOUT
  | VK_INCOMPLETE
  | VK_ERROR_OUT_OF_HOST_MEMORY
  | VK_ERROR_OUT_OF_DEVICE_MEMORY
  | VK_ERROR_INITIALIZATION_FAILED
  | VK_ERROR_DEVICE_LOST
  | VK_ERROR_SURFACE_LOST_KHR
  | VK_ERROR_OUT_OF_DATE_KHR

datatype VkPresentModeKHR =
    VK_PRESENT_MODE_IMMEDIATE_KHR
  | VK_PRESENT_MODE_MAILBOX_KHR
  | VK_PRESENT_MODE_FIFO_KHR
  | VK_PRESENT_MODE_FIFO_RELAXED_KHR

datatype image_status = INVALID | ACQUIRED | PENDING | PRESENTED | FREE

definition VK_NULL_HANDLE :: u64 where
  "VK_NULL_HANDLE = 0"

record swapchain_image =
  image_handle :: u64
  present_fence :: u64
  status :: image_status
  data :: u64

record ring_buffer =
  ring :: "u32 list option"
  head :: u32
  tail :: u32
  ring_size :: u32

text \<open>
  Modelled from the spec: the counting semaphores (\<open>m_free_image_semaphore\<close>,
  \<open>m_page_flip_semaphore\<close>, of a class that is not among the sources) are their counts;
  \<open>init(n)\<close> sets the count to \<open>n\<close>, \<open>post()\<close> increments it.
\<close>

record swapchain_base =
  m_thread_sem_defined :: bool
  m_first_present :: bool
  m_pending_buffer_pool :: ring_buffer
  m_num_swapchain_images :: u32
  m_swapchain_images :: "swapchain_image list option"
  m_surface :: u64
  m_descendant :: u64
  m_ancestor :: u64
  m_device :: u64
  m_queue :: u64
  m_page_flip_thread_run :: bool
  m_page_flip_thread :: bool
  m_is_valid :: bool
  m_free_image_semaphore :: nat
  m_page_flip_semaphore :: nat
  m_start_present_semaphore :: nat

type_synonym store = "u64 \<Rightarrow> swapchain_base option"

text \<open>\<open>m_swapchain_images[i]\<close>, read through the pointer.\<close>

definition read_image :: "swapchain_base \<Rightarrow> nat \<Rightarrow> fault + swapchain_image" where
  "read_image sc i =
     (case m_swapchain_images sc of
        None \<Rightarrow> Inl NullDeref
      | Some imgs \<Rightarrow> if i < length imgs then Inr (imgs ! i) else Inl OutOfBounds)"

subsection \<open>\<open>get_swapchain_images\<close>\<close>

text \<open>
  The \<open>do ... while\<close> loop: \<open>cur\<close> is \<open>current_image\<close>, \<open>cnt\<close> is
  \<open>*swapchain_image_count\<close>, \<open>arr\<close> is the caller's array. The result is the return
  code, the count written back and the array.
\<close>

function copy_images ::
  "swapchain_base \<Rightarrow> u32 \<Rightarrow> u32 \<Rightarrow> u64 list \<Rightarrow> fault + VkResult \<times> u32 \<times> u64 list option" where
  "copy_images sc cur cnt arr =
     (case read_image sc (unat cur) of
        Inl f \<Rightarrow> Inl f
      | Inr im \<Rightarrow>
          if \<not> unat cur < length arr then Inl OutOfBounds
          else
            let arr' = arr[unat cur := image_handle im] in
            if cur + 1 = m_num_swapchain_images sc then Inr (VK_SUCCESS, cur + 1, Some arr')
            else if cur + 1 < cnt then copy_images sc (cur + 1) cnt arr'
            else Inr (VK_INCOMPLETE, cur + 1, Some arr'))"
  by pat_completeness auto
termination
proof (relation "measure (\<lambda>(sc, cur, cnt, arr). unat (m_num_swapchain_images sc - cur - 1))")
  show "wf (measure (\<lambda>(sc, cur, cnt, arr). unat (m_num_swapchain_images sc - cur - 1)))"
    by simp
next
  fix sc :: swapchain_base and cur cnt :: u32 and arr :: "u64 list" and im arr'
  assume ne: "cur + 1 \<noteq> m_num_swapchain_images sc"
  let ?x = "m_num_swapchain_images sc - cur - 1"
  have dec: "unat (y - 1) < unat y" if "y \<noteq> 0" for y :: u32
    using that by (simp add: unat_minus_one unat_gt_0)
  have "?x \<noteq> 0" using ne by (simp add: algebra_simps)
  then have "unat (?x - 1) < unat ?x"
    by (rule dec)
  moreover have "m_num_swapchain_images sc - (cur + 1) - 1 = ?x - 1"
    by (simp only: diff_diff_eq add.commute)
  ultimately show "((sc, cur + 1, cnt, arr'), (sc, cur, cnt, arr))
      \<in> measure (\<lambda>(sc, cur, cnt, arr). unat (m_num_swapchain_images sc - cur - 1))"
    by (simp only: in_measure prod.case)
qed

declare copy_images.simps [simp del]

definition get_swapchain_images ::
  "bool \<Rightarrow> swapchain_base \<Rightarrow> u32 \<Rightarrow> u64 list option \<Rightarrow> fault + VkResult \<times> u32 \<times> u64 list option" where
  "get_swapchain_images ndebug sc swapchain_image_count swapchain_images =
     (case swapchain_images of
        None \<Rightarrow> Inr (VK_SUCCESS, m_num_swapchain_images sc, None)
      | Some arr \<Rightarrow>
          if \<not> ndebug \<and> \<not> m_num_swapchain_images sc > 0 then Inl AssertFail
          else if \<not> ndebug \<and> \<not> swapchain_image_count > 0 then Inl AssertFail
          else copy_images sc 0 swapchain_image_count arr)"

subsection \<open>\<open>queue_present\<close>\<close>

text \<open>
  The scan of the descendant's images, as \<open>queue_present\<close> and \<open>teardown\<close> have it:
  true at the first image that is \<open>PRESENTED\<close> or \<open>PENDING\<close>.
\<close>

fun scan_presenting :: "swapchain_base \<Rightarrow> nat list \<Rightarrow> fault + bool" where
  "scan_presenting desc [] = Inr False"
| "scan_presenting desc (i # is) =
     (case read_image desc i of
        Inl f \<Rightarrow> Inl f
      | Inr im \<Rightarrow>
          if status im = PRESENTED \<or> status im = PENDING then Inr True
          else scan_presenting desc is)"

definition descendant_started_presenting :: "store \<Rightarrow> swapchain_base \<Rightarrow> fault + bool" where
  "descendant_started_presenting st this =
     (if m_descendant this \<noteq> VK_NULL_HANDLE then
        (case st (m_descendant this) of
           None \<Rightarrow> Inl NullDeref
         | Some desc \<Rightarrow> scan_presenting desc [0..<unat (m_num_swapchain_images desc)])
      else Inr False)"

text \<open>The calls into the device that \<open>queue_present\<close> makes, with the handles they are given.\<close>

record device_disp =
  ResetFences :: "u64 \<Rightarrow> u64 \<Rightarrow> VkResult"
  QueueSubmit :: "u64 \<Rightarrow> u64 \<Rightarrow> VkResult"

definition set_status :: "swapchain_base \<Rightarrow> nat \<Rightarrow> image_status \<Rightarrow> fault + swapchain_base" where
  "set_status sc i s =
     (case m_swapchain_images sc of
        None \<Rightarrow> Inl NullDeref
      | Some imgs \<Rightarrow>
          if i < length imgs
          then Inr (sc\<lparr>m_swapchain_images := Some (imgs[i := (imgs ! i)\<lparr>status := s\<rparr>])\<rparr>)
          else Inl OutOfBounds)"

text \<open>
  \<open>ring[tail] = image_index; tail = (tail + 1) % size\<close>, followed by the post of the
  page-flip semaphore.
\<close>

definition enqueue_pending :: "swapchain_base \<Rightarrow> u32 \<Rightarrow> fault + swapchain_base" where
  "enqueue_pending sc image_index =
     (let pool = m_pending_buffer_pool sc in
      case ring pool of
        None \<Rightarrow> Inl NullDeref
      | Some rg \<Rightarrow>
          if \<not> unat (tail pool) < length rg then Inl OutOfBounds
          else if ring_size pool = 0 then Inl DivByZero
          else Inr (sc\<lparr>m_pending_buffer_pool :=
                         pool\<lparr>ring := Some (rg[unat (tail pool) := image_index]),
                              tail := (tail pool + 1) mod ring_size pool\<rparr>,
                       m_page_flip_semaphore := m_page_flip_semaphore sc + 1\<rparr>))"

definition queue_present ::
  "bool \<Rightarrow> device_disp \<Rightarrow> store \<Rightarrow> swapchain_base \<Rightarrow> u64 \<Rightarrow> u32 \<Rightarrow> fault + VkResult \<times> swapchain_base" where
  "queue_present ndebug disp st this queue image_index =
     (case descendant_started_presenting st this of
        Inl f \<Rightarrow> Inl f
      | Inr descendent_started_presenting \<Rightarrow>
          (case read_image this (unat image_index) of
             Inl f \<Rightarrow> Inl f
           | Inr im \<Rightarrow>
               if \<not> ndebug \<and> status im \<noteq> ACQUIRED then Inl AssertFail
               else
                 let result = ResetFences disp (m_device this) (present_fence im) in
                 if result \<noteq> VK_SUCCESS then Inr (result, this)
                 else
                   let result = QueueSubmit disp queue (present_fence im) in
                   if result \<noteq> VK_SUCCESS then Inr (result, this)
                   else if descendent_started_presenting then
                     (case set_status this (unat image_index) FREE of
                        Inl f \<Rightarrow> Inl f
                      | Inr this1 \<Rightarrow>
                          (case enqueue_pending this1 image_index of
                             Inl f \<Rightarrow> Inl f
                           | Inr this2 \<Rightarrow> Inr (VK_ERROR_OUT_OF_DATE_KHR, this2)))
                   else
                     (case set_status this (unat image_index) PENDING of
                        Inl f \<Rightarrow> Inl f
                      | Inr this1 \<Rightarrow>
                          (case enqueue_pending this1 image_index of
                             Inl f \<Rightarrow> Inl f
                           | Inr this2 \<Rightarrow> Inr (VK_SUCCESS, this2)))))"

subsection \<open>\<open>wait_for_free_buffer\<close> and \<open>wait_for_pending_buffers\<close>\<close>

text \<open>
  A wait on the free-image semaphore blocks until the page-flip thread or the presenter
  posts it. The rest of the system is a state \<open>'e\<close> with two operations, parameters of the
  model: \<open>sem_wait timeout\<close> is \<open>m_free_image_semaphore.wait(timeout)\<close>, and
  \<open>get_free_buffer timeout\<close> is the presenter's method, which gives a result and the
  timeout that is left.
\<close>

type_synonym 'e sem_wait = "u64 \<Rightarrow> 'e \<Rightarrow> VkResult \<times> 'e"
type_synonym 'e get_free_buffer = "u64 \<Rightarrow> 'e \<Rightarrow> (VkResult \<times> u64) \<times> 'e"

definition wait_for_free_buffer ::
  "'e sem_wait \<Rightarrow> 'e get_free_buffer \<Rightarrow> u64 \<Rightarrow> 'e \<Rightarrow> VkResult \<times> 'e" where
  "wait_for_free_buffer sem_wait get_free_buffer timeout e =
     (case sem_wait 0 e of
        (retval, e1) \<Rightarrow>
          if retval = VK_NOT_READY then
            (case get_free_buffer timeout e1 of
               ((retval2, timeout'), e2) \<Rightarrow>
                 if retval2 = VK_SUCCESS then sem_wait timeout' e2 else (retval2, e2))
          else (retval, e1))"

definition UINT64_MAX :: u64 where
  "UINT64_MAX = - 1"

fun count_acquired :: "swapchain_base \<Rightarrow> nat list \<Rightarrow> c_int \<Rightarrow> fault + c_int" where
  "count_acquired sc [] num_acquired_images = Inr num_acquired_images"
| "count_acquired sc (i # is) num_acquired_images =
     (case read_image sc i of
        Inl f \<Rightarrow> Inl f
      | Inr im \<Rightarrow>
          count_acquired sc is
            (if status im = ACQUIRED then num_acquired_images + 1 else num_acquired_images))"

text \<open>
  \<open>while (wait > 0) { wait_for_free_buffer(UINT64_MAX); --wait; }\<close> on the \<open>int\<close>
  \<open>wait\<close>. The loop gives the state of the rest of the system and the results of the
  calls of \<open>wait_for_free_buffer\<close> it has made, in order.
\<close>

function wait_loop ::
  "'e sem_wait \<Rightarrow> 'e get_free_buffer \<Rightarrow> c_int \<Rightarrow> 'e \<Rightarrow> VkResult list \<Rightarrow> 'e \<times> VkResult list" where
  "wait_loop sem_wait get_free_buffer wait e done =
     (if 0 < sint wait then
        (case wait_for_free_buffer sem_wait get_free_buffer UINT64_MAX e of
           (r, e') \<Rightarrow> wait_loop sem_wait get_free_buffer (wait - 1) e' (done @ [r]))
      else (e, done))"
  by pat_completeness auto
termination
proof (relation "measure (\<lambda>(sem_wait, get_free_buffer, wait, e, done). nat (sint wait))")
  show "wf (measure (\<lambda>(sem_wait, get_free_buffer, wait, e, done). nat (sint wait)))"
    by simp
next
  fix sem_wait :: "'e sem_wait" and get_free_buffer :: "'e get_free_buffer"
    and wait :: c_int and e e' :: 'e and "done" :: "VkResult list" and x r
  assume pos: "0 < sint wait"
  have lt: "sint wait < 2 ^ 31" using sint_lt [of wait] by simp
  have "- (2 ^ 31) \<le> (0::int)" by simp
  then have "- (2 ^ 31) \<le> sint wait - 1" using pos by linarith
  moreover have "sint wait - 1 < 2 ^ 31" using lt by linarith
  ultimately have "signed_take_bit 31 (sint wait - 1) = sint wait - 1"
    by (rule signed_take_bit_int_eq_self)
  then have "sint (wait - 1) = sint wait - 1"
    by (simp add: sint_word_ariths)
  then show "((sem_wait, get_free_buffer, wait - 1, e', done @ [r]), (sem_wait, get_free_buffer, wait, e, done))
      \<in> measure (\<lambda>(sem_wait, get_free_buffer, wait, e, done). nat (sint wait))"
    using pos by simp
qed

declare wait_loop.simps [simp del]

definition wait_for_pending_buffers ::
  "'e sem_wait \<Rightarrow> 'e get_free_buffer \<Rightarrow> swapchain_base \<Rightarrow> 'e \<Rightarrow> fault + 'e \<times> VkResult list" where
  "wait_for_pending_buffers sem_wait get_free_buffer sc e =
     (case count_acquired sc [0..<unat (m_num_swapchain_images sc)] 0 of
        Inl f \<Rightarrow> Inl f
      | Inr num_acquired_images \<Rightarrow>
          let wait = m_num_swapchain_images sc - num_acquired_images - 1
          in Inr (wait_loop sem_wait get_free_buffer wait e []))"

subsection \<open>The claims about the swapchain in the words of the specification\<close>

text \<open>
  \<open>descendant_took_over\<close>: a descendant exists and one of its images is \<open>PRESENTED\<close> or
  \<open>PENDING\<close>. \<open>descendant_wf\<close>: the descendant handle, when not null, is the handle of
  a swapchain whose image array holds \<open>m_num_swapchain_images\<close> images.
\<close>

definition presenting :: "swapchain_image \<Rightarrow> bool" where
  "presenting im = (status im = PRESENTED \<or> status im = PENDING)"

definition images_wf :: "swapchain_base \<Rightarrow> swapchain_image list \<Rightarrow> bool" where
  "images_wf sc imgs = (m_swapchain_images sc = Some imgs \<and> unat (m_num_swapchain_images sc) = length imgs)"

text \<open>
  The images of a swapchain, none while the array is not allocated; \<open>array_wf\<close>: the
  array holds \<open>m_num_swapchain_images\<close> images.
\<close>

definition images_of :: "swapchain_base \<Rightarrow> swapchain_image list" where
  "images_of sc = (case m_swapchain_images sc of None \<Rightarrow> [] | Some imgs \<Rightarrow> imgs)"

definition array_wf :: "swapchain_base \<Rightarrow> bool" where
  "array_wf sc = (unat (m_num_swapchain_images sc) = length (images_of sc))"

definition descendant_wf :: "store \<Rightarrow> swapchain_base \<Rightarrow> bool" where
  "descendant_wf st this =
     (m_descendant this = VK_NULL_HANDLE \<or>
      (case st (m_descendant this) of
         None \<Rightarrow> False
       | Some desc \<Rightarrow> (case m_swapchain_images desc of
                         None \<Rightarrow> False
                       | Some imgs \<Rightarrow> unat (m_num_swapchain_images desc) = length imgs)))"

definition descendant_took_over :: "store \<Rightarrow> swapchain_base \<Rightarrow> bool" where
  "descendant_took_over st this =
     (m_descendant this \<noteq> VK_NULL_HANDLE \<and>
      (case st (m_descendant this) of
         None \<Rightarrow> False
       | Some desc \<Rightarrow> (case m_swapchain_images desc of
                         None \<Rightarrow> False
                       | Some imgs \<Rightarrow> list_ex presenting imgs)))"

text \<open>The pending ring can take one more index: it is allocated, \<open>tail\<close> is inside it, its size is not 0.\<close>

definition ring_wf :: "swapchain_base \<Rightarrow> u32 list \<Rightarrow> bool" where
  "ring_wf sc rg =
     (ring (m_pending_buffer_pool sc) = Some rg \<and>
      unat (tail (m_pending_buffer_pool sc)) < length rg \<and>
      ring_size (m_pending_buffer_pool sc) \<noteq> 0)"

text \<open>The state after a successful \<open>queue_present\<close> that gives the image the status \<open>s\<close>.\<close>

definition presented_state ::
  "swapchain_base \<Rightarrow> swapchain_image list \<Rightarrow> u32 list \<Rightarrow> u32 \<Rightarrow> image_status \<Rightarrow> swapchain_base" where
  "presented_state this imgs rg image_index s =
     this\<lparr>m_swapchain_images := Some (imgs[unat image_index := (imgs ! unat image_index)\<lparr>status := s\<rparr>]),
          m_pending_buffer_pool :=
            (m_pending_buffer_pool this)
              \<lparr>ring := Some (rg[unat (tail (m_pending_buffer_pool this)) := image_index]),
               tail := (tail (m_pending_buffer_pool this) + 1) mod ring_size (m_pending_buffer_pool this)\<rparr>,
          m_page_flip_semaphore := m_page_flip_semaphore this + 1\<rparr>"

definition acquired_count :: "swapchain_image list \<Rightarrow> nat" where
  "acquired_count imgs = length (filter (\<lambda>im. status im = ACQUIRED) imgs)"

subsection \<open>Example swapchains\<close>

text \<open>
  A swapchain of three images (one acquired, one free, one on screen) with an empty ring,
  and a descendant one of whose images is pending, at the handle \<open>0x2000\<close>.
\<close>

definition example_images :: "swapchain_image list" where
  "example_images =
     [\<lparr>image_handle = 101, present_fence = 201, status = ACQUIRED, data = 0\<rparr>,
      \<lparr>image_handle = 102, present_fence = 202, status = FREE, data = 0\<rparr>,
      \<lparr>image_handle = 103, present_fence = 203, status = PRESENTED, data = 0\<rparr>]"

definition example_swapchain :: swapchain_base where
  "example_swapchain =
     \<lparr>m_thread_sem_defined = True, m_first_present = False,
      m_pending_buffer_pool = \<lparr>ring = Some [0, 0, 0], head = 0, tail = 0, ring_size = 3\<rparr>,
      m_num_swapchain_images = 3, m_swapchain_images = Some example_images,
      m_surface = 1, m_descendant = 0, m_ancestor = 0, m_device = 1, m_queue = 1,
      m_page_flip_thread_run = True, m_page_flip_thread = True, m_is_valid = True,
      m_free_image_semaphore = 1, m_page_flip_semaphore = 0, m_start_present_semaphore = 0\<rparr>"

definition example_descendant :: swapchain_base where
  "example_descendant =
     example_swapchain
       \<lparr>m_swapchain_images :=
          Some [\<lparr>image_handle = 111, present_fence = 211, status = FREE, data = 0\<rparr>,
                \<lparr>image_handle = 112, present_fence = 212, status = PENDING, data = 0\<rparr>,
                \<lparr>image_handle = 113, present_fence = 213, status = FREE, data = 0\<rparr>],
        m_ancestor := 0x1000\<rparr>"

definition example_store :: store where
  "example_store = (\<lambda>h. if h = 0x2000 then Some example_descendant else None)"

definition example_disp :: device_disp where
  "example_disp = \<lparr>ResetFences = (\<lambda>device fence. VK_SUCCESS), QueueSubmit = (\<lambda>queue fence. VK_SUCCESS)\<rparr>"

definition failing_disp :: device_disp where
  "failing_disp =
     \<lparr>ResetFences = (\<lambda>device fence. VK_ERROR_DEVICE_LOST), QueueSubmit = (\<lambda>queue fence. VK_SUCCESS)\<rparr>"

text \<open>
  The value of the \<open>int\<close> \<open>wait\<close> in \<open>wait_for_pending_buffers\<close>, and the array that
  \<open>get_swapchain_images\<close> leaves when it has copied the handles of the first \<open>m\<close>
  images into \<open>arr\<close>.
\<close>

definition wait_value :: "swapchain_base \<Rightarrow> swapchain_image list \<Rightarrow> c_int" where
  "wait_value sc imgs = m_num_swapchain_images sc - of_nat (acquired_count imgs) - 1"

definition copied :: "swapchain_image list \<Rightarrow> nat \<Rightarrow> u64 list \<Rightarrow> u64 list" where
  "copied imgs m arr = map (\<lambda>j. if j < m then image_handle (imgs ! j) else arr ! j) [0..<length arr]"

definition submit_failing_disp :: device_disp where
  "submit_failing_disp =
     \<lparr>ResetFences = (\<lambda>device fence. VK_SUCCESS),
      QueueSubmit = (\<lambda>queue fence. VK_ERROR_OUT_OF_DEVICE_MEMORY)\<rparr>"

subsection \<open>Observing the waits on the free-image semaphore\<close>

text \<open>
  To count what \<open>wait_for_pending_buffers\<close> does to the free-image semaphore, the two
  operations of the rest of the system are wrapped so that they record themselves: a
  wait on the semaphore with its timeout and result, a call of \<open>get_free_buffer\<close> with
  the timeout it is given, its result and the timeout it leaves. The wrapped operations
  behave as the ones they wrap.
\<close>

datatype sem_event = SemWait u64 VkResult | GetFreeBuffer u64 VkResult u64

definition traced_sem_wait :: "'e sem_wait \<Rightarrow> ('e \<times> sem_event list) sem_wait" where
  "traced_sem_wait sem_wait timeout el =
     (case sem_wait timeout (fst el) of
        (r, e') \<Rightarrow> (r, (e', snd el @ [SemWait timeout r])))"

definition traced_get_free_buffer :: "'e get_free_buffer \<Rightarrow> ('e \<times> sem_event list) get_free_buffer" where
  "traced_get_free_buffer get_free_buffer timeout el =
     (case get_free_buffer timeout (fst el) of
        ((r, timeout'), e') \<Rightarrow> ((r, timeout'), (e', snd el @ [GetFreeBuffer timeout r timeout'])))"

fun is_sem_wait :: "sem_event \<Rightarrow> bool" where
  "is_sem_wait (SemWait timeout r) = True"
| "is_sem_wait (GetFreeBuffer timeout r timeout') = False"

text \<open>A wait that can block: its timeout is not 0.\<close>

fun is_blocking_wait :: "sem_event \<Rightarrow> bool" where
  "is_blocking_wait (SemWait timeout r) = (timeout \<noteq> 0)"
| "is_blocking_wait (GetFreeBuffer timeout r timeout') = False"

fun is_successful_get_free_buffer :: "sem_event \<Rightarrow> bool" where
  "is_successful_get_free_buffer (SemWait timeout r) = False"
| "is_successful_get_free_buffer (GetFreeBuffer timeout r timeout') = (r = VK_SUCCESS)"

definition sem_waits :: "sem_event list \<Rightarrow> nat" where
  "sem_waits evs = length (filter is_sem_wait evs)"

definition blocking_waits :: "sem_event list \<Rightarrow> nat" where
  "blocking_waits evs = length (filter is_blocking_wait evs)"

definition successful_get_free_buffers :: "sem_event list \<Rightarrow> nat" where
  "successful_get_free_buffers evs = length (filter is_successful_get_free_buffer evs)"

text \<open>
  What one call of \<open>wait_for_free_buffer(UINT64_MAX)\<close> does, in the words of the source:
  it polls the semaphore with timeout 0; if the poll is \<open>NOT_READY\<close>, it calls
  \<open>get_free_buffer\<close>; if that succeeds, it waits on the semaphore with the timeout that
  is left. A call is described by the results \<open>(poll, result of get_free_buffer, timeout
  left, result of the second wait)\<close>, of which the later ones count only when they are
  reached; \<open>call_events\<close> is what the call does, \<open>call_result\<close> what it returns.
\<close>

type_synonym call_outcome = "VkResult \<times> VkResult \<times> u64 \<times> VkResult"

fun call_events :: "call_outcome \<Rightarrow> sem_event list" where
  "call_events (r0, r1, timeout', r2) =
     (if r0 \<noteq> VK_NOT_READY then [SemWait 0 r0]
      else if r1 \<noteq> VK_SUCCESS then [SemWait 0 r0, GetFreeBuffer UINT64_MAX r1 timeout']
      else [SemWait 0 r0, GetFreeBuffer UINT64_MAX r1 timeout', SemWait timeout' r2])"

fun call_result :: "call_outcome \<Rightarrow> VkResult" where
  "call_result (r0, r1, timeout', r2) =
     (if r0 \<noteq> VK_NOT_READY then r0 else if r1 \<noteq> VK_SUCCESS then r1 else r2)"

text \<open>
  A semaphore that is always ready, one that is not ready when polled and is posted while
  it is waited for, and a presenter whose \<open>get_free_buffer\<close> succeeds and leaves the
  timeout as it was.
\<close>

definition ready_sem_wait :: "unit sem_wait" where
  "ready_sem_wait timeout e = (VK_SUCCESS, e)"

definition polled_sem_wait :: "unit sem_wait" where
  "polled_sem_wait timeout e = (if timeout = 0 then VK_NOT_READY else VK_SUCCESS, e)"

definition example_get_free_buffer :: "unit get_free_buffer" where
  "example_get_free_buffer timeout e = ((VK_SUCCESS, timeout), e)"

text \<open>
  A swapchain of three images none of which is acquired, and one of \<open>2 ^ 31 + 1\<close> free
  images.
\<close>

definition idle_swapchain :: swapchain_base where
  "idle_swapchain =
     example_swapchain
       \<lparr>m_swapchain_images :=
          Some [\<lparr>image_handle = 101, present_fence = 201, status = FREE, data = 0\<rparr>,
                \<lparr>image_handle = 102, present_fence = 202, status = FREE, data = 0\<rparr>,
                \<lparr>image_handle = 103, present_fence = 203, status = PRESENTED, data = 0\<rparr>]\<rparr>"

definition free_image :: swapchain_image where
  "free_image = \<lparr>image_handle = 101, present_fence = 201, status = FREE, data = 0\<rparr>"

definition huge_swapchain :: swapchain_base where
  "huge_swapchain =
     example_swapchain
       \<lparr>m_num_swapchain_images := 2147483649,
        m_swapchain_images := Some (replicate 2147483649 free_image)\<rparr>"

subsection \<open>\<open>deprecate\<close> and \<open>init\<close>\<close>

text \<open>
  The fields of \<open>VkSwapchainCreateInfoKHR\<close> that decide what \<open>init\<close> does; the
  others are forwarded to \<open>create_image\<close> in the image-create descriptor.
\<close>

record VkSwapchainCreateInfoKHR =
  surface :: u64
  minImageCount :: u32
  presentMode :: VkPresentModeKHR
  oldSwapchain :: u64

text \<open>
  What \<open>init\<close> gets from outside the class: the memory for the image array and for the
  ring (none when the allocation fails), the results of the presenter's \<open>init_platform\<close>
  and \<open>create_image\<close> (by the number of the call and the slot it is given), of the two
  semaphore initialisations, of \<open>GetDeviceQueue\<close>, \<open>SetDeviceLoaderData\<close> and
  \<open>sem_init\<close>, and the presenter's \<open>destroy_image\<close>.
\<close>

record init_env =
  images_memory :: "swapchain_image list option"
  init_platform :: VkResult
  ring_memory :: "u32 list option"
  free_image_semaphore_init :: VkResult
  create_image :: "nat \<Rightarrow> swapchain_image \<Rightarrow> VkResult \<times> swapchain_image"
  GetDeviceQueue :: u64
  SetDeviceLoaderData :: VkResult
  page_flip_semaphore_init :: VkResult
  sem_init :: c_int
  destroy_image :: "swapchain_image \<Rightarrow> swapchain_image"

definition write_image :: "swapchain_base \<Rightarrow> nat \<Rightarrow> swapchain_image \<Rightarrow> fault + swapchain_base" where
  "write_image sc i im =
     (case m_swapchain_images sc of
        None \<Rightarrow> Inl NullDeref
      | Some imgs \<Rightarrow>
          if i < length imgs then Inr (sc\<lparr>m_swapchain_images := Some (imgs[i := im])\<rparr>)
          else Inl OutOfBounds)"

fun deprecate_loop :: "init_env \<Rightarrow> swapchain_base \<Rightarrow> nat list \<Rightarrow> fault + swapchain_base" where
  "deprecate_loop env sc [] = Inr sc"
| "deprecate_loop env sc (i # is) =
     (case read_image sc i of
        Inl f \<Rightarrow> Inl f
      | Inr im \<Rightarrow>
          if status im = FREE then
            (case write_image sc i (destroy_image env im) of
               Inl f \<Rightarrow> Inl f
             | Inr sc' \<Rightarrow> deprecate_loop env sc' is)
          else deprecate_loop env sc is)"

definition deprecate :: "init_env \<Rightarrow> swapchain_base \<Rightarrow> u64 \<Rightarrow> fault + swapchain_base" where
  "deprecate env sc descendant =
     (case deprecate_loop env sc [0..<unat (m_num_swapchain_images sc)] of
        Inl f \<Rightarrow> Inl f
      | Inr sc' \<Rightarrow> Inr (sc'\<lparr>m_descendant := descendant\<rparr>))"

text \<open>The loop that sets every image to invalid values, and the loop that creates the images.\<close>

fun invalidate_images :: "swapchain_base \<Rightarrow> nat list \<Rightarrow> fault + swapchain_base" where
  "invalidate_images sc [] = Inr sc"
| "invalidate_images sc (i # is) =
     (case write_image sc i
             \<lparr>image_handle = VK_NULL_HANDLE, present_fence = VK_NULL_HANDLE, status = INVALID, data = 0\<rparr> of
        Inl f \<Rightarrow> Inl f
      | Inr sc' \<Rightarrow> invalidate_images sc' is)"

fun create_images :: "init_env \<Rightarrow> swapchain_base \<Rightarrow> nat list \<Rightarrow> fault + VkResult \<times> swapchain_base" where
  "create_images env sc [] = Inr (VK_SUCCESS, sc)"
| "create_images env sc (i # is) =
     (case read_image sc i of
        Inl f \<Rightarrow> Inl f
      | Inr im \<Rightarrow>
          (case create_image env i im of
             (result, im') \<Rightarrow>
               (case write_image sc i im' of
                  Inl f \<Rightarrow> Inl f
                | Inr sc' \<Rightarrow>
                    if result \<noteq> VK_SUCCESS then Inr (result, sc')
                    else create_images env sc' is)))"

text \<open>
  The end of \<open>init\<close>, from the start of the page-flip thread: the thread is recorded as
  started, the ancestor is deprecated in the store, the swapchain becomes valid.
\<close>

definition init_finish ::
  "init_env \<Rightarrow> store \<Rightarrow> swapchain_base \<Rightarrow> u64 \<Rightarrow> VkSwapchainCreateInfoKHR \<Rightarrow>
   fault + VkResult \<times> swapchain_base \<times> store" where
  "init_finish env st this this_handle swapchain_create_info =
     (let this = this\<lparr>m_thread_sem_defined := True, m_page_flip_thread := True\<rparr> in
      if oldSwapchain swapchain_create_info \<noteq> VK_NULL_HANDLE then
        (let this = this\<lparr>m_ancestor := oldSwapchain swapchain_create_info\<rparr> in
         case st (m_ancestor this) of
           None \<Rightarrow> Inl NullDeref
         | Some ancestor \<Rightarrow>
             (case deprecate env ancestor this_handle of
                Inl f \<Rightarrow> Inl f
              | Inr ancestor' \<Rightarrow>
                  Inr (VK_SUCCESS, this\<lparr>m_is_valid := True\<rparr>, st(m_ancestor this := Some ancestor'))))
      else Inr (VK_SUCCESS, this\<lparr>m_is_valid := True\<rparr>, st))"

text \<open>
  The part of \<open>init\<close> from the creation of the images to \<open>sem_init\<close>. \<open>res\<close> is the
  local \<open>int res\<close>, which nothing has assigned when it is first compared with 0: the
  value it has there is a parameter.
\<close>

definition init_presentation ::
  "bool \<Rightarrow> init_env \<Rightarrow> store \<Rightarrow> swapchain_base \<Rightarrow> u64 \<Rightarrow> VkSwapchainCreateInfoKHR \<Rightarrow> c_int \<Rightarrow>
   fault + VkResult \<times> swapchain_base \<times> store" where
  "init_presentation ndebug env st this this_handle swapchain_create_info res =
     (case create_images env this [0..<unat (m_num_swapchain_images this)] of
        Inl f \<Rightarrow> Inl f
      | Inr (result, this) \<Rightarrow>
          if result \<noteq> VK_SUCCESS then Inr (result, this, st)
          else
            let this = this\<lparr>m_queue := GetDeviceQueue env\<rparr>;
                result = SetDeviceLoaderData env
            in if VK_SUCCESS \<noteq> result then Inr (result, this, st)
               else
                 let result = page_flip_semaphore_init env in
                 if result \<noteq> VK_SUCCESS then Inr (result, this, st)
                 else
                   let this = this\<lparr>m_page_flip_semaphore := 0\<rparr> in
                   if \<not> ndebug \<and> res \<noteq> 0 then Inl AssertFail
                   else if res \<noteq> 0 then Inr (VK_ERROR_OUT_OF_HOST_MEMORY, this, st)
                   else
                     let res = sem_init env in
                     if \<not> ndebug \<and> res \<noteq> 0 then Inl AssertFail
                     else if res \<noteq> 0 then Inr (VK_ERROR_OUT_OF_HOST_MEMORY, this, st)
                     else init_finish env st (this\<lparr>m_start_present_semaphore := 0\<rparr>)
                            this_handle swapchain_create_info)"

definition init ::
  "bool \<Rightarrow> init_env \<Rightarrow> store \<Rightarrow> swapchain_base \<Rightarrow> u64 \<Rightarrow> u64 \<Rightarrow> VkSwapchainCreateInfoKHR \<Rightarrow> c_int \<Rightarrow>
   fault + VkResult \<times> swapchain_base \<times> store" where
  "init ndebug env st this this_handle device swapchain_create_info res =
     (if \<not> ndebug \<and> device = VK_NULL_HANDLE then Inl AssertFail
      else if \<not> ndebug \<and> surface swapchain_create_info = VK_NULL_HANDLE then Inl AssertFail
      else
        let this = this\<lparr>m_device := device, m_surface := surface swapchain_create_info\<rparr> in
        if presentMode swapchain_create_info \<noteq> VK_PRESENT_MODE_FIFO_KHR \<and>
           presentMode swapchain_create_info \<noteq> VK_PRESENT_MODE_FIFO_RELAXED_KHR
        then Inr (VK_ERROR_INITIALIZATION_FAILED, this, st)
        else
          let this = this\<lparr>m_num_swapchain_images := minImageCount swapchain_create_info,
                           m_swapchain_images := images_memory env\<rparr>
          in if m_swapchain_images this = None
             then Inr (VK_ERROR_OUT_OF_HOST_MEMORY, this\<lparr>m_num_swapchain_images := 0\<rparr>, st)
             else
               let result = init_platform env in
               if result \<noteq> VK_SUCCESS then Inr (result, this, st)
               else
                 (case invalidate_images this [0..<unat (m_num_swapchain_images this)] of
                    Inl f \<Rightarrow> Inl f
                  | Inr this \<Rightarrow>
                      let this = this\<lparr>m_pending_buffer_pool :=
                                        (m_pending_buffer_pool this)\<lparr>ring := ring_memory env\<rparr>\<rparr>
                      in if ring (m_pending_buffer_pool this) = None
                         then Inr (VK_ERROR_OUT_OF_HOST_MEMORY, this, st)
                         else
                           let this = this\<lparr>m_pending_buffer_pool :=
                                             (m_pending_buffer_pool this)
                                               \<lparr>head := 0, tail := 0,
                                                ring_size := m_num_swapchain_images this\<rparr>\<rparr>;
                               result = free_image_semaphore_init env
                           in if result \<noteq> VK_SUCCESS then
                                (if \<not> ndebug \<and> result \<noteq> VK_ERROR_OUT_OF_HOST_MEMORY
                                 then Inl AssertFail else Inr (result, this, st))
                              else
                                init_presentation ndebug env st
                                  (this\<lparr>m_free_image_semaphore := unat (m_num_swapchain_images this)\<rparr>)
                                  this_handle swapchain_create_info res))"

text \<open>The return code of a call.\<close>

definition returned :: "fault + VkResult \<times> 'a \<Rightarrow> fault + VkResult" where
  "returned x = map_sum id fst x"

text \<open>
  A swapchain as the constructor leaves it, and an environment in which every allocation
  and every call succeeds, for a swapchain of three images in FIFO mode.
\<close>

definition constructed_swapchain :: swapchain_base where
  "constructed_swapchain =
     \<lparr>m_thread_sem_defined = False, m_first_present = True,
      m_pending_buffer_pool = \<lparr>ring = None, head = 0, tail = 0, ring_size = 0\<rparr>,
      m_num_swapchain_images = 0, m_swapchain_images = None,
      m_surface = VK_NULL_HANDLE, m_descendant = VK_NULL_HANDLE, m_ancestor = VK_NULL_HANDLE,
      m_device = VK_NULL_HANDLE, m_queue = VK_NULL_HANDLE,
      m_page_flip_thread_run = True, m_page_flip_thread = False, m_is_valid = False,
      m_free_image_semaphore = 0, m_page_flip_semaphore = 0, m_start_present_semaphore = 0\<rparr>"

definition succeeding_env :: init_env where
  "succeeding_env =
     \<lparr>images_memory = Some example_images,
      init_platform = VK_SUCCESS,
      ring_memory = Some [7, 7, 7],
      free_image_semaphore_init = VK_SUCCESS,
      create_image = (\<lambda>i im. (VK_SUCCESS, im\<lparr>image_handle := 100 + of_nat i,
                                                 present_fence := 200 + of_nat i, status := FREE\<rparr>)),
      GetDeviceQueue = 5,
      SetDeviceLoaderData = VK_SUCCESS,
      page_flip_semaphore_init = VK_SUCCESS,
      sem_init = 0,
      destroy_image = (\<lambda>im. im\<lparr>image_handle := VK_NULL_HANDLE, present_fence := VK_NULL_HANDLE,
                                  status := INVALID\<rparr>)\<rparr>"

definition empty_store :: store where
  "empty_store = (\<lambda>h. None)"

definition fifo_create_info :: VkSwapchainCreateInfoKHR where
  "fifo_create_info =
     \<lparr>surface = 9, minImageCount = 3, presentMode = VK_PRESENT_MODE_FIFO_KHR,
      oldSwapchain = VK_NULL_HANDLE\<rparr>"

section \<open>Stride and size arithmetic\<close>

lemma and_align_mask:
  fixes y :: u64
  assumes "unat y < 2 ^ 32"
  shows "unat (y AND 0xFFFFFFC0) = (unat y div 64) * 64"
proof -
  have m: "(0xFFFFFFC0 :: u64) = push_bit 6 (mask 26)"
    by (simp add: mask_eq_exp_minus_1)
  have "y AND push_bit 6 (mask 26) = push_bit 6 (take_bit 26 (drop_bit 6 y))"
    by (rule bit_word_eqI) (auto simp add: bit_simps)
  then have "unat (y AND 0xFFFFFFC0) = unat (push_bit 6 (take_bit 26 (drop_bit 6 y)))"
    by (simp add: m)
  also have "\<dots> = take_bit 64 (push_bit 6 (take_bit 26 (drop_bit 6 (take_bit 64 (unat y)))))"
    by (simp only: unsigned_push_bit_eq unsigned_take_bit_eq unsigned_drop_bit_eq) simp
  also have "\<dots> = (unat y mod 2 ^ 64 div 64 mod 2 ^ 26 * 64) mod 2 ^ 64"
    by (simp only: take_bit_eq_mod push_bit_eq_mult drop_bit_eq_div) simp
  also have "\<dots> = (unat y div 64) * 64"
    using assms by simp
  finally show ?thesis .
qed

lemma unat_round_size_up_to_align:
  assumes "unat sz < 2 ^ 32 - 64"
  shows "unat (round_size_up_to_align sz) = (unat sz + 63) div 64 * 64"
proof -
  have "unat (sz + 63) = unat sz + 63"
    using assms by (simp add: unat_word_ariths)
  moreover have "sz + ucast WSIALLOCP_MIN_ALIGN_SZ - 1 = sz + 63"
    by (simp add: WSIALLOCP_MIN_ALIGN_SZ_def)
  moreover have "(ucast (NOT (WSIALLOCP_MIN_ALIGN_SZ - 1)) :: u64) = 0xFFFFFFC0"
    by (simp add: WSIALLOCP_MIN_ALIGN_SZ_def)
  ultimately show ?thesis
    using assms and_align_mask [of "sz + 63"] by (simp add: round_size_up_to_align_def add.commute)
qed

lemma unat_u8_bound:
  fixes b :: u8
  shows "unat b < 256"
  using unsigned_less [of b, where 'a = nat] by simp

lemma unat_bytes_per_pixel:
  fixes b :: u8
  shows "unat (ucast (b div 8) :: u32) = unat b div 8"
  using unat_u8_bound [of b] by (simp add: unsigned_ucast_eq unat_div take_bit_eq_mod)

lemma bytes_per_pixel_assert:
  fixes b :: u8
  assumes "unat b mod 8 = 0"
  shows "(ucast (b div 8) :: u32) * 8 = ucast b"
proof -
  have lt: "unat b < 256" by (rule unat_u8_bound)
  have "unat ((ucast (b div 8) :: u32) * 8) = unat b div 8 * 8"
    using lt by (simp add: unat_word_ariths unat_bytes_per_pixel)
  also have "\<dots> = unat b"
    using assms by (simp add: mod_eq_0_iff_dvd)
  also have "\<dots> = unat (ucast b :: u32)"
    using lt by (simp add: unsigned_ucast_eq take_bit_eq_mod)
  finally show ?thesis by (simp only: word_unat_eq_iff)
qed

lemma unat_stride:
  fixes w :: u32 and b :: u8
  assumes "w \<le> MAX_IMAGE_SIZE"
  shows "unat (ucast (round_size_up_to_align (ucast (w * ucast (b div 8)))) :: c_int) = spec_stride w b"
    and "spec_stride w b < 2 ^ 31"
proof -
  have "unat b < 256" by (rule unat_u8_bound)
  then have lt: "unat b div 8 \<le> 31" by simp
  have w: "unat w \<le> 128000"
    using assms by (simp add: word_le_nat_alt MAX_IMAGE_SIZE_def)
  have p: "unat w * (unat b div 8) \<le> 128000 * 31"
    using mult_le_mono [OF w lt] by simp
  then have "unat (w * ucast (b div 8) :: u32) = unat w * (unat b div 8)"
    by (simp add: unat_word_ariths unat_bytes_per_pixel)
  then have u: "unat (ucast (w * ucast (b div 8) :: u32) :: u64) = unat w * (unat b div 8)"
    using p by (simp add: unsigned_ucast_eq take_bit_eq_mod)
  have r: "unat (round_size_up_to_align (ucast (w * ucast (b div 8)))) = spec_stride w b"
    unfolding spec_stride_def using p by (subst unat_round_size_up_to_align) (simp_all add: u)
  show b: "spec_stride w b < 2 ^ 31"
    unfolding spec_stride_def using p by simp
  show "unat (ucast (round_size_up_to_align (ucast (w * ucast (b div 8)))) :: c_int) = spec_stride w b"
    using b by (simp add: unsigned_ucast_eq take_bit_eq_mod r)
qed

lemma sint_small:
  fixes x :: c_int
  assumes "unat x < 2 ^ 31"
  shows "sint x = int (unat x)"
proof -
  have "int (unat x) < int (2 ^ 31)"
    using assms by (rule iffD2 [OF of_nat_less_iff])
  then have lt: "uint x < 2 ^ 31" by simp
  have "(0::int) \<le> uint x" by simp
  moreover have "- (2 ^ 31) \<le> (0::int)" by simp
  ultimately have ge: "- (2 ^ 31) \<le> uint x" by (rule order_trans [rotated])
  have "signed_take_bit 31 (uint x) = uint x"
    using ge lt by (rule signed_take_bit_int_eq_self)
  then show ?thesis by (simp add: sint_uint)
qed

lemma unat_total_size:
  fixes s h :: u32
  shows "unat ((0::u64) + ucast (s * h)) = (unat s * unat h) mod 2 ^ 32"
  by (simp add: unsigned_ucast_eq unat_word_ariths take_bit_eq_mod)

text \<open>
  What \<open>calculate_format_properties\<close> computes for a linear format of one plane and a
  width of at most \<open>MAX_IMAGE_SIZE\<close>: the stride is the width in bytes rounded up to 64
  and fits an \<open>int\<close>, the offset is 0, and the total size is the product of stride and
  height as an \<open>unsigned int\<close>, that is, modulo \<open>2 ^ 32\<close>.
\<close>

lemma calculate_format_properties_single_plane:
  assumes lin: "modifier (desc_format d) = DRM_FORMAT_MOD_LINEAR"
    and one: "nr_planes (format_spec d) = 1"
    and w: "width info \<le> MAX_IMAGE_SIZE"
    and a: "ndebug \<or> unat (bpp (format_spec d) 0) mod 8 = 0"
  shows "\<exists>strides' offs' total.
           calculate_format_properties ndebug d info strides offs ts
             = Inr (WSIALLOC_ERROR_NONE, strides', offs', total) \<and>
           unat (strides' 0) = spec_stride (width info) (bpp (format_spec d) 0) \<and>
           sint (strides' 0) = int (unat (strides' 0)) \<and>
           offs' 0 = 0 \<and>
           unat total = (unat (strides' 0) * unat (height info)) mod 2 ^ 32"
proof -
  let ?b = "bpp (format_spec d) 0"
  let ?stride = "ucast (round_size_up_to_align (ucast (width info * ucast (?b div 8)))) :: c_int"
  let ?total = "(0::u64) + ucast (?stride * height info)"
  have as: "ndebug \<or> (ucast (?b div 8) :: u32) * 8 = ucast ?b"
    using a bytes_per_pixel_assert [of ?b] by auto
  have c: "calculate_format_properties ndebug d info strides offs ts
          = Inr (WSIALLOC_ERROR_NONE, strides(0 := ?stride), offs(0 := 0), ?total)"
    using as by (auto simp add: calculate_format_properties_def lin one Let_def)
  have s1: "unat ?stride = spec_stride (width info) ?b"
    by (rule unat_stride(1) [OF w])
  have s2: "sint ?stride = int (unat ?stride)"
    using unat_stride [OF w, of ?b] by (intro sint_small) simp
  have t: "unat ?total = (unat ?stride * unat (height info)) mod 2 ^ 32"
    by (rule unat_total_size)
  show ?thesis
  proof (intro exI conjI)
    show "calculate_format_properties ndebug d info strides offs ts
          = Inr (WSIALLOC_ERROR_NONE, strides(0 := ?stride), offs(0 := 0), ?total)"
      by (fact c)
    show "unat ((strides(0 := ?stride)) 0) = spec_stride (width info) ?b"
      using s1 by simp
    show "sint ((strides(0 := ?stride)) 0) = int (unat ((strides(0 := ?stride)) 0))"
      using s2 by simp
    show "(offs(0 := 0)) 0 = 0" by simp
    show "unat ?total = (unat ((strides(0 := ?stride)) 0) * unat (height info)) mod 2 ^ 32"
      using t by simp
  qed
qed

text \<open>The total size is the product of stride and height as long as the product is below \<open>2 ^ 32\<close>.\<close>

lemma total_size_exact_when_small:
  assumes "modifier (desc_format d) = DRM_FORMAT_MOD_LINEAR"
    and "nr_planes (format_spec d) = 1"
    and "width info \<le> MAX_IMAGE_SIZE"
    and "ndebug \<or> unat (bpp (format_spec d) 0) mod 8 = 0"
    and small: "spec_stride (width info) (bpp (format_spec d) 0) * unat (height info) < 2 ^ 32"
  shows "\<exists>strides' offs' total.
           calculate_format_properties ndebug d info strides offs ts
             = Inr (WSIALLOC_ERROR_NONE, strides', offs', total) \<and>
           unat (strides' 0) = spec_stride (width info) (bpp (format_spec d) 0) \<and>
           offs' 0 = 0 \<and>
           unat total = unat (strides' 0) * unat (height info)"
proof -
  from calculate_format_properties_single_plane [OF assms(1-4), where strides = strides and offs = offs and ts = ts]
  obtain strides' offs' tot' where
    c: "calculate_format_properties ndebug d info strides offs ts
          = Inr (WSIALLOC_ERROR_NONE, strides', offs', tot')"
    and s: "unat (strides' 0) = spec_stride (width info) (bpp (format_spec d) 0)"
    and z: "offs' 0 = 0"
    and t: "unat tot' = (unat (strides' 0) * unat (height info)) mod 2 ^ 32"
    by blast
  have "unat tot' = unat (strides' 0) * unat (height info)"
    using t small by (simp add: s)
  with c s z show ?thesis by blast
qed

lemma spec_stride_properties:
  "unat w * (unat b div 8) \<le> spec_stride w b" "spec_stride w b mod 64 = 0"
  unfolding spec_stride_def by presburger+

text \<open>
  Claim C1. For an accepted request the stride is \<open>round_up(width * (bpp / 8), 64)\<close>,
  the offset is 0 and the total size is \<open>stride * height\<close>. Stride and offset are as
  claimed (lemma \<open>calculate_format_properties_single_plane\<close>), the total size is not: the
  source multiplies the \<open>int\<close> stride with the \<open>uint32_t\<close> height, a product of 32
  bits. At the largest request that passes validation, 128000 by 128000 pixels of 4
  bytes, the stride is 512000 and the total size comes out as 1111490560, where
  \<open>stride * height\<close> is 65536000000.
\<close>

theorem total_size_wraps_at_largest_request:
  "calculate_format_properties ndebug largest_descriptor largest_info strides offs ts
     = Inr (WSIALLOC_ERROR_NONE, strides(0 := 512000), offs(0 := 0), 1111490560)
   \<and> unat (1111490560 :: u64) \<noteq> unat (512000 :: c_int) * unat (height largest_info)"
  by (simp add: calculate_format_properties_def largest_descriptor_def largest_info_def example_XR24_def
      DRM_FORMAT_MOD_LINEAR_def round_size_up_to_align_def WSIALLOCP_MIN_ALIGN_SZ_def)

section \<open>Format selection and allocation\<close>

lemma find_format_loop_wf:
  assumes "list_all (\<lambda>e. unat (nr_planes e) \<le> WSIALLOC_MAX_PLANES) es"
  shows "find_format_loop ndebug es fcc = Inr (find (\<lambda>e. drm_format e = fcc) es)"
  using assms by (induction es) auto

lemma find_format_wf:
  assumes "table_wf D"
  shows "find_format ndebug D fcc = Inr (table_lookup D fcc)"
proof -
  have "list_all (\<lambda>e. unat (nr_planes e) \<le> WSIALLOC_MAX_PLANES) (fourcc_format_table D)"
    using assms by (simp add: table_wf_def list_all_iff)
  then show ?thesis
    by (simp add: find_format_def table_lookup_def find_format_loop_wf)
qed

lemma table_lookup_wf:
  assumes "table_wf D" and "table_lookup D fcc = Some spec"
  shows "1 \<le> unat (nr_planes spec)"
    and "nr_planes spec = 1 \<Longrightarrow> unat (bpp spec 0) mod 8 = 0"
proof -
  have "spec \<in> set (fourcc_format_table D)"
    using assms(2) by (auto simp add: table_lookup_def find_Some_iff)
  then have *: "1 \<le> unat (nr_planes spec) \<and> list_all (\<lambda>p. unat (bpp spec p) mod 8 = 0) [0..<unat (nr_planes spec)]"
    using assms(1) by (simp add: table_wf_def list_all_iff)
  then show "1 \<le> unat (nr_planes spec)" by simp
  show "unat (bpp spec 0) mod 8 = 0" if "nr_planes spec = 1"
    using * that by simp
qed

text \<open>A candidate that is not acceptable leaves the walk with \<open>NOT_SUPPORTED\<close> and nothing else changed.\<close>

lemma not_acceptable_step:
  assumes wf: "table_wf D" and i: "i < length fs" and na: "\<not> acceptable_candidate D (fs ! i)"
  shows "format_walk ndebug D info fs (i # is) (err, sel, strides, offs, tot)
         = format_walk ndebug D info fs is (WSIALLOC_ERROR_NOT_SUPPORTED, sel, strides, offs, tot)"
proof (cases "table_lookup D (fourcc (fs ! i))")
  case None
  then show ?thesis using i by (simp add: find_format_wf [OF wf])
next
  case (Some spec)
  have ge: "1 \<le> unat (nr_planes spec)" by (rule table_lookup_wf(1) [OF wf Some])
  have "nr_planes spec \<noteq> 1 \<or> modifier (fs ! i) \<noteq> DRM_FORMAT_MOD_LINEAR"
    using na Some by (simp add: acceptable_candidate_def)
  moreover have "(ucast (nr_planes spec) :: u32) > 1" if "nr_planes spec \<noteq> 1"
  proof -
    have "unat (nr_planes spec) \<noteq> 1"
      using that by (metis unat_1 word_unat_eq_iff)
    then have "1 < unat (nr_planes spec)" using ge by simp
    moreover have "unat (ucast (nr_planes spec) :: u32) = unat (nr_planes spec)"
      using unsigned_less [of "nr_planes spec", where 'a = nat]
      by (simp add: unsigned_ucast_eq take_bit_eq_mod)
    ultimately show ?thesis by (simp add: word_less_nat_alt)
  qed
  ultimately have "calculate_format_properties ndebug \<lparr>desc_format = fs ! i, format_spec = spec\<rparr> info strides offs tot
     = Inr (WSIALLOC_ERROR_NOT_SUPPORTED, strides, offs, tot)"
    by (auto simp add: calculate_format_properties_def Let_def)
  then show ?thesis using i Some by (simp add: find_format_wf [OF wf])
qed


lemma format_walk_skip:
  assumes wf: "table_wf D"
    and na: "\<forall>j\<in>set js. j < length fs \<and> \<not> acceptable_candidate D (fs ! j)"
  shows "format_walk ndebug D info fs (js @ rest) (err, sel, strides, offs, tot)
         = format_walk ndebug D info fs rest
             (if js = [] then err else WSIALLOC_ERROR_NOT_SUPPORTED, sel, strides, offs, tot)"
  using na
proof (induction js arbitrary: err)
  case Nil
  then show ?case by simp
next
  case (Cons j js)
  have "format_walk ndebug D info fs ((j # js) @ rest) (err, sel, strides, offs, tot)
        = format_walk ndebug D info fs (js @ rest) (WSIALLOC_ERROR_NOT_SUPPORTED, sel, strides, offs, tot)"
    using Cons.prems not_acceptable_step [OF wf, of j fs] by simp
  also have "\<dots> = format_walk ndebug D info fs rest (WSIALLOC_ERROR_NOT_SUPPORTED, sel, strides, offs, tot)"
    using Cons.prems by (subst Cons.IH) simp_all
  finally show ?case by simp
qed

lemma acceptable_step:
  assumes wf: "table_wf D" and i: "i < length fs" and acc: "acceptable_candidate D (fs ! i)"
    and w: "width info \<le> MAX_IMAGE_SIZE"
  shows "\<exists>spec strides' offs' tot'.
           format_walk ndebug D info fs (i # is) (err, sel, strides, offs, tot)
             = Inr (WSIALLOC_ERROR_NONE, \<lparr>desc_format = fs ! i, format_spec = spec\<rparr>, strides', offs', tot') \<and>
           table_lookup D (fourcc (fs ! i)) = Some spec \<and> nr_planes spec = 1 \<and>
           unat (strides' 0) = spec_stride (width info) (bpp spec 0) \<and>
           sint (strides' 0) = int (unat (strides' 0)) \<and>
           offs' 0 = 0 \<and>
           unat tot' = (unat (strides' 0) * unat (height info)) mod 2 ^ 32"
proof -
  from acc obtain spec where sp: "table_lookup D (fourcc (fs ! i)) = Some spec"
    and one: "nr_planes spec = 1" and lin: "modifier (fs ! i) = DRM_FORMAT_MOD_LINEAR"
    by (auto simp add: acceptable_candidate_def split: option.splits)
  let ?d = "\<lparr>desc_format = fs ! i, format_spec = spec\<rparr>"
  have m8: "unat (bpp spec 0) mod 8 = 0" by (rule table_lookup_wf(2) [OF wf sp one])
  have "\<exists>strides' offs' total.
           calculate_format_properties ndebug ?d info strides offs tot
             = Inr (WSIALLOC_ERROR_NONE, strides', offs', total) \<and>
           unat (strides' 0) = spec_stride (width info) (bpp (format_spec ?d) 0) \<and>
           sint (strides' 0) = int (unat (strides' 0)) \<and>
           offs' 0 = 0 \<and>
           unat total = (unat (strides' 0) * unat (height info)) mod 2 ^ 32"
    by (rule calculate_format_properties_single_plane) (simp_all add: lin one w m8)
  then have "\<exists>strides' offs' total.
           calculate_format_properties ndebug ?d info strides offs tot
             = Inr (WSIALLOC_ERROR_NONE, strides', offs', total) \<and>
           unat (strides' 0) = spec_stride (width info) (bpp spec 0) \<and>
           sint (strides' 0) = int (unat (strides' 0)) \<and>
           offs' 0 = 0 \<and>
           unat total = (unat (strides' 0) * unat (height info)) mod 2 ^ 32"
    by simp
  then obtain strides' offs' tot' where
    c: "calculate_format_properties ndebug ?d info strides offs tot
          = Inr (WSIALLOC_ERROR_NONE, strides', offs', tot')"
    and p: "unat (strides' 0) = spec_stride (width info) (bpp spec 0)"
       "sint (strides' 0) = int (unat (strides' 0))" "offs' 0 = 0"
       "unat tot' = (unat (strides' 0) * unat (height info)) mod 2 ^ 32"
    by blast
  have "format_walk ndebug D info fs (i # is) (err, sel, strides, offs, tot)
          = Inr (WSIALLOC_ERROR_NONE, ?d, strides', offs', tot')"
    using i sp c by (simp add: find_format_wf [OF wf])
  with sp one p show ?thesis by blast
qed

lemma select_format_first_acceptable:
  assumes wf: "table_wf D" and v: "valid_request i fs"
    and sp: "take (unat (format_count i)) fs = pre @ c # post"
    and na: "\<forall>p\<in>set pre. \<not> acceptable_candidate D p"
    and acc: "acceptable_candidate D c"
  shows "\<exists>spec strides' offs' tot'.
           select_format ndebug D i fs
             = Inr (WSIALLOC_ERROR_NONE, \<lparr>desc_format = c, format_spec = spec\<rparr>, strides', offs', tot') \<and>
           table_lookup D (fourcc c) = Some spec \<and> nr_planes spec = 1 \<and>
           unat (strides' 0) = spec_stride (width i) (bpp spec 0) \<and>
           sint (strides' 0) = int (unat (strides' 0)) \<and>
           offs' 0 = 0 \<and>
           unat tot' = (unat (strides' 0) * unat (height i)) mod 2 ^ 32"
proof -
  let ?n = "unat (format_count i)"
  let ?k = "length pre"
  have n: "?n \<le> length fs" and w: "width i \<le> MAX_IMAGE_SIZE"
    using v by (simp_all add: valid_request_def)
  have len: "length (pre @ c # post) = ?n"
    using n by (simp flip: sp)
  then have k: "?k < ?n" by simp
  have nth: "fs ! j = (pre @ c # post) ! j" if "j < ?n" for j
    using that by (simp flip: sp)
  have c: "fs ! ?k = c"
    using nth [OF k] by simp
  have pre: "\<forall>j\<in>set [0..<?k]. j < length fs \<and> \<not> acceptable_candidate D (fs ! j)"
  proof
    fix j assume "j \<in> set [0..<?k]"
    then have j: "j < ?k" by simp
    then have "fs ! j = pre ! j" using nth [of j] k by (simp add: nth_append)
    then show "j < length fs \<and> \<not> acceptable_candidate D (fs ! j)"
      using j k n na by simp
  qed
  have split: "[0..<?n] = [0..<?k] @ ?k # [Suc ?k..<?n]"
    using k by (metis le_add2 less_imp_add_positive upt_add_eq_append upt_conv_Cons zero_le)
  obtain e where
    "format_walk ndebug D i fs [0..<?n] initial_walk_state
       = format_walk ndebug D i fs (?k # [Suc ?k..<?n])
           (e, zero_format_descriptor, (\<lambda>_. 0), (\<lambda>_. 0), 0)"
    unfolding split initial_walk_state_def using format_walk_skip [OF wf pre] by blast
  moreover have "?k < length fs" using k n by simp
  ultimately show ?thesis
    using acceptable_step [OF wf _ _ w, of ?k fs ndebug "[Suc ?k..<?n]" e zero_format_descriptor "\<lambda>_. 0" "\<lambda>_. 0" 0]
      acc c by (simp add: select_format_def)
qed

lemma validate_parameters_valid:
  assumes "valid_request i fs"
  shows "validate_parameters (Some a) (Some i) (Some r) = Inr True"
  using assms by (auto simp add: valid_request_def validate_parameters_def not_less)

lemma find_split:
  assumes "find P xs = Some c"
  shows "\<exists>pre post. xs = pre @ c # post \<and> (\<forall>p\<in>set pre. \<not> P p) \<and> P c"
proof -
  from assms obtain k where k: "k < length xs" "P (xs ! k)" "c = xs ! k" "\<forall>j<k. \<not> P (xs ! j)"
    by (auto simp add: find_Some_iff)
  have "xs = take k xs @ c # drop (Suc k) xs"
    using k(1,3) by (simp add: id_take_nth_drop)
  moreover have "\<forall>p\<in>set (take k xs). \<not> P p"
    using k(1,4) by (auto simp add: in_set_conv_nth)
  ultimately show ?thesis using k(2,3) by blast
qed

lemma select_format_find:
  assumes wf: "table_wf D" and v: "valid_request i fs"
    and f: "find (acceptable_candidate D) (take (unat (format_count i)) fs) = Some c"
  shows "\<exists>spec strides' offs' tot'.
           select_format ndebug D i fs
             = Inr (WSIALLOC_ERROR_NONE, \<lparr>desc_format = c, format_spec = spec\<rparr>, strides', offs', tot') \<and>
           table_lookup D (fourcc c) = Some spec \<and> nr_planes spec = 1 \<and>
           unat (strides' 0) = spec_stride (width i) (bpp spec 0) \<and>
           sint (strides' 0) = int (unat (strides' 0)) \<and>
           offs' 0 = 0 \<and>
           unat tot' = (unat (strides' 0) * unat (height i)) mod 2 ^ 32"
proof -
  from find_split [OF f] obtain pre post where
    "take (unat (format_count i)) fs = pre @ c # post"
    "\<forall>p\<in>set pre. \<not> acceptable_candidate D p" "acceptable_candidate D c"
    by blast
  then show ?thesis by (rule select_format_first_acceptable [OF wf v])
qed

text \<open>What \<open>wsiallocp_alloc\<close> does once the walk has selected a format of one plane.\<close>

lemma wsiallocp_alloc_selected:
  assumes v: "valid_request i fs"
    and s: "select_format ndebug D i fs
             = Inr (WSIALLOC_ERROR_NONE, \<lparr>desc_format = c, format_spec = spec\<rparr>, strides', offs', tot')"
    and one: "nr_planes spec = 1"
  shows "wsiallocp_alloc ndebug D (Some a) fn_alloc (Some i) (Some r) =
     (if flags i AND WSIALLOC_ALLOCATE_NO_MEMORY D = 0 then
        (case fn_alloc a i tot' of
           Inl f \<Rightarrow> Inl f
         | Inr new_fd \<Rightarrow>
             if sint new_fd < 0 then Inr (WSIALLOC_ERROR_NO_RESOURCE, Some r, [tot'])
             else Inr (WSIALLOC_ERROR_NONE,
                       Some (r\<lparr>format := c,
                               average_row_strides := (average_row_strides r)(0 := strides' 0),
                               offsets := (offsets r)(0 := offs' 0),
                               buffer_fds := (buffer_fds r)(0 := new_fd),
                               is_disjoint := False\<rparr>), [tot']))
      else Inr (WSIALLOC_ERROR_NONE,
                Some (r\<lparr>format := c,
                        average_row_strides := (average_row_strides r)(0 := strides' 0),
                        offsets := (offsets r)(0 := offs' 0),
                        is_disjoint := False\<rparr>), []))"
proof -
  have f: "formats i = Some fs" using v by (simp add: valid_request_def)
  show ?thesis
    by (simp add: wsiallocp_alloc_def validate_parameters_valid [OF v] f s one Let_def
        split: sum.splits)
qed

lemma invalid_request_rejected:
  assumes "allocator = None \<or> result = None \<or>
           (\<exists>i. info = Some i \<and>
              (format_count i = 0 \<or> formats i = None \<or> width i < 1 \<or> height i < 1 \<or>
               MAX_IMAGE_SIZE < width i \<or> MAX_IMAGE_SIZE < height i))"
  shows "wsiallocp_alloc ndebug D allocator fn_alloc info result
         = Inr (WSIALLOC_ERROR_INVALID, result, [])"
  using assms by (auto simp add: wsiallocp_alloc_def validate_parameters_def)

text \<open>
  Claim C4. A request that violates the input contract is answered with \<open>INVALID\<close>, and
  the allocation callback is not invoked. This holds for a null allocator, a null result,
  an empty format list and a dimension outside \<open>[1, 128000]\<close> (lemma
  \<open>invalid_request_rejected\<close>). It fails for a null \<open>info\<close> pointer: with allocator and
  result present, \<open>validate_parameters\<close> reads \<open>info->format_count\<close> through it.
\<close>

theorem null_info_is_dereferenced:
  "wsiallocp_alloc ndebug D (Some a) fn_alloc None (Some r) = Inl NullDeref"
  by (simp add: wsiallocp_alloc_def validate_parameters_def)

text \<open>
  Claim C2, amended. When the candidates of a valid request (the first \<open>format_count\<close>
  entries of the format array) contain one that resolves in the table with one plane and
  has the linear modifier, the walk of \<open>wsiallocp_alloc\<close> ends at the first such
  candidate \<open>c\<close> with no error, and \<open>c\<close> is the selected format. It becomes
  \<open>result->format\<close>, and \<open>wsiallocp_alloc\<close> returns \<open>NONE\<close>, when the \<open>NO_MEMORY\<close>
  flag is set or the callback gives a descriptor; when the callback gives a negative
  value, \<open>wsiallocp_alloc\<close> returns \<open>NO_RESOURCE\<close> and leaves the result as it was.
\<close>

theorem first_acceptable_candidate_is_selected:
  assumes wf: "table_wf D" and v: "valid_request i fs"
    and f: "find (acceptable_candidate D) (take (unat (format_count i)) fs) = Some c"
  shows "\<exists>spec strides' offs' tot'.
           select_format ndebug D i fs
             = Inr (WSIALLOC_ERROR_NONE, \<lparr>desc_format = c, format_spec = spec\<rparr>, strides', offs', tot') \<and>
           table_lookup D (fourcc c) = Some spec \<and>
           (flags i AND WSIALLOC_ALLOCATE_NO_MEMORY D \<noteq> 0 \<or> (\<exists>new_fd. fn_alloc a i tot' = Inr new_fd \<and> 0 \<le> sint new_fd)
              \<longrightarrow> (\<exists>r' calls. wsiallocp_alloc ndebug D (Some a) fn_alloc (Some i) (Some r)
                                 = Inr (WSIALLOC_ERROR_NONE, Some r', calls) \<and> format r' = c)) \<and>
           (flags i AND WSIALLOC_ALLOCATE_NO_MEMORY D = 0 \<and> (\<exists>new_fd. fn_alloc a i tot' = Inr new_fd \<and> sint new_fd < 0)
              \<longrightarrow> wsiallocp_alloc ndebug D (Some a) fn_alloc (Some i) (Some r)
                     = Inr (WSIALLOC_ERROR_NO_RESOURCE, Some r, [tot']))"
proof -
  from select_format_find [OF wf v f] obtain spec strides' offs' tot' where
    s: "select_format ndebug D i fs
          = Inr (WSIALLOC_ERROR_NONE, \<lparr>desc_format = c, format_spec = spec\<rparr>, strides', offs', tot')"
    and l: "table_lookup D (fourcc c) = Some spec" and one: "nr_planes spec = 1"
    by blast
  note w = wsiallocp_alloc_selected [OF v s one, of a fn_alloc r]
  have "flags i AND WSIALLOC_ALLOCATE_NO_MEMORY D \<noteq> 0 \<or> (\<exists>new_fd. fn_alloc a i tot' = Inr new_fd \<and> 0 \<le> sint new_fd)
         \<longrightarrow> (\<exists>r' calls. wsiallocp_alloc ndebug D (Some a) fn_alloc (Some i) (Some r)
                                 = Inr (WSIALLOC_ERROR_NONE, Some r', calls) \<and> format r' = c)"
    unfolding w by auto
  moreover have "flags i AND WSIALLOC_ALLOCATE_NO_MEMORY D = 0 \<and> (\<exists>new_fd. fn_alloc a i tot' = Inr new_fd \<and> sint new_fd < 0)
              \<longrightarrow> wsiallocp_alloc ndebug D (Some a) fn_alloc (Some i) (Some r)
                     = Inr (WSIALLOC_ERROR_NO_RESOURCE, Some r, [tot'])"
    unfolding w by auto
  ultimately show ?thesis using s l by blast
qed

theorem first_acceptable_candidate_is_selected_witness:
  "table_wf example_decls \<and> valid_request example_info example_formats \<and>
   find (acceptable_candidate example_decls) (take (unat (format_count example_info)) example_formats)
     = Some (example_formats ! 1) \<and>
   (\<exists>r' calls. wsiallocp_alloc False example_decls (Some ()) (\<lambda>a i sz. Inr 5) (Some example_info) (Some example_result)
       = Inr (WSIALLOC_ERROR_NONE, Some r', calls) \<and> format r' = example_formats ! 1)"
proof -
  have wf: "table_wf example_decls" by code_simp
  have v: "valid_request example_info example_formats" by code_simp
  have f: "find (acceptable_candidate example_decls) (take (unat (format_count example_info)) example_formats)
     = Some (example_formats ! 1)" by code_simp
  have "(0::int) \<le> sint (5 :: c_int)" by simp
  then show ?thesis
    using wf v f first_acceptable_candidate_is_selected [OF wf v f,
        where ndebug = False and a = "()" and fn_alloc = "\<lambda>a i sz. Inr 5" and r = example_result]
    by blast
qed

text \<open>
  Claim C2 as stated, the first acceptable candidate becomes \<open>result->format\<close> for
  every valid request: it fails when the allocation fails. With a callback that returns
  \<open>-1\<close> the second candidate of the example request is selected, the call returns
  \<open>NO_RESOURCE\<close> and the result, whose format is another one, is left as it was.
\<close>

theorem first_candidate_not_written_when_allocation_fails:
  "table_wf example_decls \<and> valid_request example_info example_formats \<and>
   find (acceptable_candidate example_decls) (take (unat (format_count example_info)) example_formats)
     = Some (example_formats ! 1) \<and>
   wsiallocp_alloc False example_decls (Some ()) failing_callback (Some example_info) (Some example_result)
     = Inr (WSIALLOC_ERROR_NO_RESOURCE, Some example_result, [8294400]) \<and>
   format example_result \<noteq> example_formats ! 1"
proof -
  have wf: "table_wf example_decls" by code_simp
  have v: "valid_request example_info example_formats" by code_simp
  have f: "find (acceptable_candidate example_decls) (take (unat (format_count example_info)) example_formats)
     = Some (example_formats ! 1)" by code_simp
  have l: "table_lookup example_decls (fourcc (example_formats ! 1)) = Some example_XR24"
    by (simp add: table_lookup_def example_decls_def example_formats_def example_NV12_def
        example_XR24_def DRM_FORMAT_BIG_ENDIAN_def)
  from select_format_find [OF wf v f, where ndebug = False]
  obtain spec strides' offs' tot' where
    s: "select_format False example_decls example_info example_formats
          = Inr (WSIALLOC_ERROR_NONE, \<lparr>desc_format = example_formats ! 1, format_spec = spec\<rparr>, strides', offs', tot')"
    and sp: "table_lookup example_decls (fourcc (example_formats ! 1)) = Some spec"
    and one: "nr_planes spec = 1"
    and st: "unat (strides' 0) = spec_stride (width example_info) (bpp spec 0)"
    and t: "unat tot' = (unat (strides' 0) * unat (height example_info)) mod 2 ^ 32"
    by blast
  have "spec = example_XR24" using sp l by simp
  then have "unat (strides' 0) = 7680"
    using st by (simp add: spec_stride_def example_info_def example_XR24_def)
  then have "unat tot' = unat (8294400 :: u64)"
    using t by (simp add: example_info_def)
  then have tot: "tot' = 8294400"
    by (simp only: word_unat_eq_iff)
  have n: "flags example_info AND WSIALLOC_ALLOCATE_NO_MEMORY example_decls = 0"
    by (simp add: example_info_def)
  have w: "wsiallocp_alloc False example_decls (Some ()) failing_callback (Some example_info) (Some example_result)
     = Inr (WSIALLOC_ERROR_NO_RESOURCE, Some example_result, [8294400])"
    by (simp add: wsiallocp_alloc_selected [OF v s one] n failing_callback_def tot)
  have d: "format example_result \<noteq> example_formats ! 1"
    by (simp add: example_result_def example_formats_def)
  show ?thesis using wf v f w d by simp
qed

text \<open>
  Claim C7. For a valid request with the \<open>NO_MEMORY\<close> flag and an acceptable candidate,
  \<open>wsiallocp_alloc\<close> returns \<open>NONE\<close>, does not call the callback (the call list is
  empty), leaves \<open>buffer_fds\<close> as it was, and fills in the selected format, the stride and
  the offset of the plane, and \<open>is_disjoint = false\<close>.
\<close>

theorem no_memory_request_returns_metadata_only:
  assumes wf: "table_wf D" and v: "valid_request i fs"
    and f: "find (acceptable_candidate D) (take (unat (format_count i)) fs) = Some c"
    and nm: "flags i AND WSIALLOC_ALLOCATE_NO_MEMORY D \<noteq> 0"
  shows "\<exists>r' spec.
           wsiallocp_alloc ndebug D (Some a) fn_alloc (Some i) (Some r)
             = Inr (WSIALLOC_ERROR_NONE, Some r', []) \<and>
           buffer_fds r' = buffer_fds r \<and>
           format r' = c \<and>
           table_lookup D (fourcc c) = Some spec \<and>
           unat (average_row_strides r' 0) = spec_stride (width i) (bpp spec 0) \<and>
           offsets r' 0 = 0 \<and>
           \<not> is_disjoint r'"
proof -
  from select_format_find [OF wf v f] obtain spec strides' offs' tot' where
    s: "select_format ndebug D i fs
          = Inr (WSIALLOC_ERROR_NONE, \<lparr>desc_format = c, format_spec = spec\<rparr>, strides', offs', tot')"
    and l: "table_lookup D (fourcc c) = Some spec" and one: "nr_planes spec = 1"
    and st: "unat (strides' 0) = spec_stride (width i) (bpp spec 0)" and off: "offs' 0 = 0"
    by blast
  show ?thesis
    using nm l st off by (simp add: wsiallocp_alloc_selected [OF v s one])
qed

theorem no_memory_request_returns_metadata_only_witness:
  "table_wf example_decls \<and> valid_request (example_info\<lparr>flags := 2\<rparr>) example_formats \<and>
   find (acceptable_candidate example_decls)
     (take (unat (format_count (example_info\<lparr>flags := 2\<rparr>))) example_formats) = Some (example_formats ! 1) \<and>
   flags (example_info\<lparr>flags := 2\<rparr>) AND WSIALLOC_ALLOCATE_NO_MEMORY example_decls \<noteq> 0 \<and>
   (\<exists>r'. wsiallocp_alloc False example_decls (Some ()) (\<lambda>a i sz. Inr 5)
            (Some (example_info\<lparr>flags := 2\<rparr>)) (Some example_result)
          = Inr (WSIALLOC_ERROR_NONE, Some r', []) \<and>
        buffer_fds r' = buffer_fds example_result \<and> format r' = example_formats ! 1 \<and>
        unat (average_row_strides r' 0) = 7680 \<and> offsets r' 0 = 0 \<and> \<not> is_disjoint r')"
proof -
  let ?i = "example_info\<lparr>flags := 2\<rparr>"
  have wf: "table_wf example_decls" by code_simp
  have v: "valid_request ?i example_formats" by code_simp
  have f: "find (acceptable_candidate example_decls) (take (unat (format_count ?i)) example_formats)
     = Some (example_formats ! 1)" by code_simp
  have nm: "flags ?i AND WSIALLOC_ALLOCATE_NO_MEMORY example_decls \<noteq> 0"
    by (simp add: example_decls_def)
  have l: "table_lookup example_decls (fourcc (example_formats ! 1)) = Some example_XR24"
    by (simp add: table_lookup_def example_decls_def example_formats_def example_NV12_def
        example_XR24_def DRM_FORMAT_BIG_ENDIAN_def)
  have st: "spec_stride (width ?i) (bpp example_XR24 0) = 7680"
    by (simp add: spec_stride_def example_info_def example_XR24_def)
  from no_memory_request_returns_metadata_only [OF wf v f nm,
        where ndebug = False and a = "()" and fn_alloc = "\<lambda>a i sz. Inr 5" and r = example_result]
  obtain r' spec where
    "wsiallocp_alloc False example_decls (Some ()) (\<lambda>a i sz. Inr 5) (Some ?i) (Some example_result)
          = Inr (WSIALLOC_ERROR_NONE, Some r', [])"
    "buffer_fds r' = buffer_fds example_result" "format r' = example_formats ! 1"
    "table_lookup example_decls (fourcc (example_formats ! 1)) = Some spec"
    "unat (average_row_strides r' 0) = spec_stride (width ?i) (bpp spec 0)"
    "offsets r' 0 = 0" "\<not> is_disjoint r'"
    by blast
  then show ?thesis using wf v f nm l st by auto
qed

section \<open>The kernel-heap adaptors\<close>

text \<open>
  Claim C8. A request with the \<open>PROTECTED\<close> flag on an adaptor without protected heap
  (\<open>protected_fd < 0\<close> for DMA-BUF heaps, \<open>protected_heap_exists\<close> false for ION) is
  answered with \<open>NO_RESOURCE\<close> by \<open>wsialloc_alloc\<close>; the callback, which alone reaches
  the kernel, is not called, and the result structure is untouched.
\<close>

theorem protected_request_without_protected_heap:
  assumes p: "flags i AND WSIALLOC_ALLOCATE_PROTECTED D \<noteq> 0"
  shows "(sint (protected_fd a) < 0 \<longrightarrow>
            wsialloc_alloc_dma_buf_heaps ndebug D dma_ioctl (Some a) (Some i) result
              = Inr (WSIALLOC_ERROR_NO_RESOURCE, result, [])) \<and>
         (\<not> protected_heap_exists b \<longrightarrow>
            wsialloc_alloc_ion ndebug D ion_ioctl (Some b) (Some i) result
              = Inr (WSIALLOC_ERROR_NO_RESOURCE, result, []))"
  using p by (simp add: wsialloc_alloc_dma_buf_heaps_def wsialloc_alloc_ion_def)

theorem protected_request_without_protected_heap_witness:
  "flags (example_info\<lparr>flags := 1\<rparr>) AND WSIALLOC_ALLOCATE_PROTECTED example_decls \<noteq> 0 \<and>
   sint (protected_fd example_dma_allocator) < 0 \<and>
   \<not> protected_heap_exists example_ion_allocator \<and>
   wsialloc_alloc_dma_buf_heaps False example_decls (\<lambda>f sz. (0, 0, 7)) (Some example_dma_allocator)
       (Some (example_info\<lparr>flags := 1\<rparr>)) (Some example_result)
     = Inr (WSIALLOC_ERROR_NO_RESOURCE, Some example_result, []) \<and>
   wsialloc_alloc_ion False example_decls (\<lambda>f sz m. (0, 7)) (Some example_ion_allocator)
       (Some (example_info\<lparr>flags := 1\<rparr>)) (Some example_result)
     = Inr (WSIALLOC_ERROR_NO_RESOURCE, Some example_result, [])"
proof -
  let ?i = "example_info\<lparr>flags := 1\<rparr>"
  have p: "flags ?i AND WSIALLOC_ALLOCATE_PROTECTED example_decls \<noteq> 0"
    by (simp add: example_decls_def)
  have d: "sint (protected_fd example_dma_allocator) < 0"
    by (simp add: example_dma_allocator_def)
  have n: "\<not> protected_heap_exists example_ion_allocator"
    by (simp add: example_ion_allocator_def)
  show ?thesis
    using p d n protected_request_without_protected_heap [OF p,
        where a = example_dma_allocator and b = example_ion_allocator]
    by simp
qed

lemma heap_scan_no_dma:
  assumes "\<forall>h\<in>set heaps. heap_type h \<noteq> ION_HEAP_TYPE_DMA"
  shows "heap_scan heaps x = x"
  using assms by (induction heaps) auto

text \<open>
  Claim C10. In the ION adaptor, \<open>find_alloc_heap_id\<close> returns the negative result of a
  failed query, and \<open>-1\<close> when no heap of type DMA is listed. \<open>wsialloc_new\<close> stores
  that \<open>int\<close> in the unsigned field \<open>alloc_heap_id\<close>, where it is never below 0: once
  \<open>malloc\<close> and \<open>open\<close> have succeeded, \<open>wsialloc_new\<close> returns \<open>NONE\<close> whatever the
  heap query gives.
\<close>

theorem ion_heap_lookup_failure_is_not_detected:
  assumes o: "0 \<le> sint open_res"
  shows "\<exists>heap_id'.
           find_alloc_heap_id ndebug query open_res = Inr heap_id' \<and>
           (sint (fst (query open_res)) < 0 \<longrightarrow> heap_id' = fst (query open_res)) \<and>
           (0 \<le> sint (fst (query open_res)) \<and>
            (\<forall>h\<in>set (snd (query open_res)). heap_type h \<noteq> ION_HEAP_TYPE_DMA) \<longrightarrow> heap_id' = - 1) \<and>
           \<not> (ucast heap_id' :: u32) < 0 \<and>
           wsialloc_new_ion ndebug True uninit open_res query
             = Inr (WSIALLOC_ERROR_NONE,
                    Some (uninit\<lparr>fd := open_res, alloc_heap_id := ucast heap_id',
                                 protected_heap_exists := False\<rparr>), [])"
proof -
  have ne: "open_res \<noteq> - 1" using o by auto
  obtain ret heaps where q: "query open_res = (ret, heaps)" by (cases "query open_res")
  let ?id = "if sint ret < 0 then ret else heap_scan heaps (- 1)"
  have f: "find_alloc_heap_id ndebug query open_res = Inr ?id"
    using ne by (simp add: find_alloc_heap_id_def q)
  have "wsialloc_new_ion ndebug True uninit open_res query
          = Inr (WSIALLOC_ERROR_NONE,
                 Some (uninit\<lparr>fd := open_res, alloc_heap_id := ucast ?id, protected_heap_exists := False\<rparr>), [])"
    using o by (simp add: wsialloc_new_ion_def f Let_def not_less del: if_split cong: if_cong)
  then show ?thesis
    using f q heap_scan_no_dma [of heaps "- 1"] by (intro exI [of _ ?id]) auto
qed

theorem ion_heap_lookup_failure_is_not_detected_witness:
  "0 \<le> sint (3 :: c_int) \<and>
   find_alloc_heap_id False (\<lambda>f. (0, [])) 3 = Inr (- 1) \<and>
   wsialloc_new_ion False True example_ion_allocator 3 (\<lambda>f. (0, []))
     = Inr (WSIALLOC_ERROR_NONE,
            Some \<lparr>fd = 3, alloc_heap_id = 0xFFFFFFFF, protected_alloc_heap_id = 0,
                  protected_heap_exists = False\<rparr>, [])"
proof -
  have o: "0 \<le> sint (3 :: c_int)" by simp
  from ion_heap_lookup_failure_is_not_detected [OF o,
      where ndebug = False and query = "\<lambda>f. (0, [])" and uninit = example_ion_allocator]
  show ?thesis by (auto simp add: example_ion_allocator_def)
qed

section \<open>The swapchain\<close>

lemma scan_presenting_indices:
  assumes "m_swapchain_images desc = Some imgs" and "\<forall>i\<in>set is. i < length imgs"
  shows "scan_presenting desc is = Inr (list_ex presenting (map (nth imgs) is))"
  using assms(2) by (induction "is") (auto simp add: read_image_def assms(1) presenting_def)

lemma descendant_started_presenting_wf:
  assumes "descendant_wf st this"
  shows "descendant_started_presenting st this = Inr (descendant_took_over st this)"
proof (cases "m_descendant this = VK_NULL_HANDLE")
  case True
  then show ?thesis
    by (simp add: descendant_started_presenting_def descendant_took_over_def)
next
  case False
  with assms obtain desc imgs where d: "st (m_descendant this) = Some desc"
    and i: "m_swapchain_images desc = Some imgs" and n: "unat (m_num_swapchain_images desc) = length imgs"
    by (auto simp add: descendant_wf_def split: option.splits)
  have "scan_presenting desc [0..<length imgs] = Inr (list_ex presenting (map (nth imgs) [0..<length imgs]))"
    by (rule scan_presenting_indices [OF i]) simp
  then show ?thesis
    using False d i n
    by (simp add: descendant_started_presenting_def descendant_took_over_def map_nth)
qed

text \<open>
  Claim C3, amended. For a call of \<open>queue_present\<close> on an image in \<open>ACQUIRED\<close>: when the
  reset of the image's fence fails, or the reset succeeds and the queue submission fails,
  the call returns the result of the failed device call and changes nothing. When both
  succeed: if the descendant exists and has an image in \<open>PRESENTED\<close> or \<open>PENDING\<close>, the
  image's status becomes \<open>FREE\<close>, its index is appended to the pending ring, the
  page-flip semaphore is posted and the call returns \<open>OUT_OF_DATE_KHR\<close>; otherwise the
  status becomes \<open>PENDING\<close>, index and post are the same, and the call returns
  \<open>SUCCESS\<close>.
\<close>

theorem queue_present_outcome:
  assumes imgs: "m_swapchain_images this = Some imgs"
    and idx: "unat image_index < length imgs"
    and acq: "status (imgs ! unat image_index) = ACQUIRED"
    and dw: "descendant_wf st this"
  shows "(ResetFences disp (m_device this) (present_fence (imgs ! unat image_index)) \<noteq> VK_SUCCESS \<longrightarrow>
            queue_present ndebug disp st this queue image_index
              = Inr (ResetFences disp (m_device this) (present_fence (imgs ! unat image_index)), this)) \<and>
         (ResetFences disp (m_device this) (present_fence (imgs ! unat image_index)) = VK_SUCCESS \<and>
          QueueSubmit disp queue (present_fence (imgs ! unat image_index)) \<noteq> VK_SUCCESS \<longrightarrow>
            queue_present ndebug disp st this queue image_index
              = Inr (QueueSubmit disp queue (present_fence (imgs ! unat image_index)), this)) \<and>
         (ResetFences disp (m_device this) (present_fence (imgs ! unat image_index)) = VK_SUCCESS \<and>
          QueueSubmit disp queue (present_fence (imgs ! unat image_index)) = VK_SUCCESS \<and>
          ring_wf this rg \<longrightarrow>
            queue_present ndebug disp st this queue image_index =
              (if descendant_took_over st this
               then Inr (VK_ERROR_OUT_OF_DATE_KHR, presented_state this imgs rg image_index FREE)
               else Inr (VK_SUCCESS, presented_state this imgs rg image_index PENDING)))"
proof -
  have r: "read_image this (unat image_index) = Inr (imgs ! unat image_index)"
    using imgs idx by (simp add: read_image_def)
  have s: "set_status this (unat image_index) s
            = Inr (this\<lparr>m_swapchain_images := Some (imgs[unat image_index := (imgs ! unat image_index)\<lparr>status := s\<rparr>])\<rparr>)"
    for s
    using imgs idx by (simp add: set_status_def)
  have e: "enqueue_pending (this\<lparr>m_swapchain_images := x\<rparr>) image_index
            = Inr (this\<lparr>m_swapchain_images := x,
                   m_pending_buffer_pool :=
                     (m_pending_buffer_pool this)
                       \<lparr>ring := Some (rg[unat (tail (m_pending_buffer_pool this)) := image_index]),
                        tail := (tail (m_pending_buffer_pool this) + 1) mod ring_size (m_pending_buffer_pool this)\<rparr>,
                   m_page_flip_semaphore := m_page_flip_semaphore this + 1\<rparr>)"
    if "ring_wf this rg" for x
    using that by (simp add: enqueue_pending_def ring_wf_def Let_def)
  show ?thesis
    by (simp add: queue_present_def descendant_started_presenting_wf [OF dw] r acq s e
        presented_state_def Let_def)
qed

theorem queue_present_outcome_witness:
  "m_swapchain_images (example_swapchain\<lparr>m_descendant := 0x2000\<rparr>) = Some example_images \<and>
   unat (0 :: u32) < length example_images \<and>
   status (example_images ! unat (0 :: u32)) = ACQUIRED \<and>
   descendant_wf example_store (example_swapchain\<lparr>m_descendant := 0x2000\<rparr>) \<and>
   ring_wf (example_swapchain\<lparr>m_descendant := 0x2000\<rparr>) [0, 0, 0] \<and>
   descendant_took_over example_store (example_swapchain\<lparr>m_descendant := 0x2000\<rparr>) \<and>
   ResetFences example_disp (m_device (example_swapchain\<lparr>m_descendant := 0x2000\<rparr>))
     (present_fence (example_images ! unat (0 :: u32))) = VK_SUCCESS \<and>
   QueueSubmit example_disp 1 (present_fence (example_images ! unat (0 :: u32))) = VK_SUCCESS \<and>
   queue_present False example_disp example_store (example_swapchain\<lparr>m_descendant := 0x2000\<rparr>) 1 0
     = Inr (VK_ERROR_OUT_OF_DATE_KHR,
            presented_state (example_swapchain\<lparr>m_descendant := 0x2000\<rparr>) example_images [0, 0, 0] 0 FREE) \<and>
   ResetFences submit_failing_disp (m_device (example_swapchain\<lparr>m_descendant := 0x2000\<rparr>))
     (present_fence (example_images ! unat (0 :: u32))) = VK_SUCCESS \<and>
   QueueSubmit submit_failing_disp 1 (present_fence (example_images ! unat (0 :: u32))) \<noteq> VK_SUCCESS \<and>
   queue_present False submit_failing_disp example_store (example_swapchain\<lparr>m_descendant := 0x2000\<rparr>) 1 0
     = Inr (VK_ERROR_OUT_OF_DEVICE_MEMORY, example_swapchain\<lparr>m_descendant := 0x2000\<rparr>)"
proof -
  let ?sc = "example_swapchain\<lparr>m_descendant := 0x2000\<rparr>"
  have imgs: "m_swapchain_images ?sc = Some example_images"
    by (simp add: example_swapchain_def)
  have idx: "unat (0 :: u32) < length example_images"
    by (simp add: example_images_def)
  have acq: "status (example_images ! unat (0 :: u32)) = ACQUIRED"
    by (simp add: example_images_def)
  have rg: "ring_wf ?sc [0, 0, 0]"
    by (simp add: ring_wf_def example_swapchain_def)
  have dw: "descendant_wf example_store ?sc"
    by (simp add: descendant_wf_def example_store_def example_descendant_def example_swapchain_def
        VK_NULL_HANDLE_def)
  have t: "descendant_took_over example_store ?sc"
    by (simp add: descendant_took_over_def example_store_def example_descendant_def
        example_swapchain_def VK_NULL_HANDLE_def presenting_def)
  have reset: "ResetFences example_disp (m_device ?sc) (present_fence (example_images ! unat (0 :: u32))) = VK_SUCCESS"
    by (simp add: example_disp_def)
  have submit: "QueueSubmit example_disp 1 (present_fence (example_images ! unat (0 :: u32))) = VK_SUCCESS"
    by (simp add: example_disp_def)
  have reset': "ResetFences submit_failing_disp (m_device ?sc) (present_fence (example_images ! unat (0 :: u32))) = VK_SUCCESS"
    by (simp add: submit_failing_disp_def)
  have submit': "QueueSubmit submit_failing_disp 1 (present_fence (example_images ! unat (0 :: u32)))
                  = VK_ERROR_OUT_OF_DEVICE_MEMORY"
    by (simp add: submit_failing_disp_def)
  show ?thesis
    using imgs idx acq rg dw t reset submit reset' submit'
      queue_present_outcome [OF imgs idx acq dw, where ndebug = False and disp = example_disp
        and queue = 1 and rg = "[0, 0, 0]"]
      queue_present_outcome [OF imgs idx acq dw, where ndebug = False and disp = submit_failing_disp
        and queue = 1 and rg = "[0, 0, 0]"]
    by simp
qed

text \<open>
  Claim C3 as stated, for every call: it fails when a device call fails. With
  \<open>ResetFences\<close> returning \<open>DEVICE_LOST\<close> the call returns that code and leaves the
  swapchain as it was, the image still \<open>ACQUIRED\<close>, whether the descendant has taken over
  or not.
\<close>

theorem queue_present_device_failure:
  "status (example_images ! unat (0 :: u32)) = ACQUIRED \<and>
   descendant_took_over example_store (example_swapchain\<lparr>m_descendant := 0x2000\<rparr>) \<and>
   queue_present False failing_disp example_store (example_swapchain\<lparr>m_descendant := 0x2000\<rparr>) 1 0
     = Inr (VK_ERROR_DEVICE_LOST, example_swapchain\<lparr>m_descendant := 0x2000\<rparr>) \<and>
   \<not> descendant_took_over example_store example_swapchain \<and>
   queue_present False failing_disp example_store example_swapchain 1 0
     = Inr (VK_ERROR_DEVICE_LOST, example_swapchain)"
  by code_simp

lemma unat_min_word:
  fixes a b :: u32
  shows "unat (min a b) = min (unat a) (unat b)"
  by (simp add: min_def word_le_nat_alt)

lemma copy_images_from:
  assumes wf: "images_wf sc imgs"
    and cap: "unat cnt \<le> length arr"
    and c1: "cur < m_num_swapchain_images sc" and c2: "cur < cnt"
  shows "copy_images sc cur cnt arr =
           Inr (if m_num_swapchain_images sc \<le> cnt then VK_SUCCESS else VK_INCOMPLETE,
                min cnt (m_num_swapchain_images sc),
                Some (map (\<lambda>j. if unat cur \<le> j \<and> j < unat (min cnt (m_num_swapchain_images sc))
                                 then image_handle (imgs ! j) else arr ! j) [0..<length arr]))"
  using wf cap c1 c2
proof (induction sc cur cnt arr rule: copy_images.induct)
  case (1 sc cur cnt arr)
  let ?n = "m_num_swapchain_images sc"
  let ?c = "unat cur"
  let ?arr' = "arr[?c := image_handle (imgs ! ?c)]"
  have imgs: "m_swapchain_images sc = Some imgs" and len: "unat ?n = length imgs"
    using "1.prems"(1) by (simp_all add: images_wf_def)
  have cn: "?c < unat ?n" and ck: "?c < unat cnt"
    using "1.prems"(3,4) by (simp_all add: word_less_nat_alt)
  have r: "read_image sc ?c = Inr (imgs ! ?c)"
    using cn by (simp add: read_image_def imgs len)
  have ca: "?c < length arr" using ck "1.prems"(2) by simp
  have "unat ?n < 2 ^ 32" using unsigned_less [of ?n, where 'a = nat] by simp
  then have suc: "unat (cur + 1) = ?c + 1"
    using cn by (simp add: unat_word_ariths)
  have step: "copy_images sc cur cnt arr =
      (if cur + 1 = ?n then Inr (VK_SUCCESS, cur + 1, Some ?arr')
       else if cur + 1 < cnt then copy_images sc (cur + 1) cnt ?arr'
       else Inr (VK_INCOMPLETE, cur + 1, Some ?arr'))"
    using ca by (subst copy_images.simps) (simp add: r Let_def)
  have upd: "?arr' = map (\<lambda>j. if ?c \<le> j \<and> j < ?c + 1 then image_handle (imgs ! j) else arr ! j) [0..<length arr]"
    by (rule nth_equalityI) (auto simp add: nth_list_update le_less_Suc_eq)
  consider (last) "cur + 1 = ?n" | (more) "cur + 1 \<noteq> ?n" "cur + 1 < cnt" | (full) "cur + 1 \<noteq> ?n" "\<not> cur + 1 < cnt"
    by blast
  then show ?case
  proof cases
    case last
    then have n: "unat ?n = ?c + 1" using suc by simp
    then have "?n \<le> cnt" using ck by (simp add: word_le_nat_alt)
    then show ?thesis
      using last n upd by (simp add: step min_def)
  next
    case more
    have lt: "cur + 1 < ?n"
      using more(1) cn suc by (simp add: word_less_nat_alt word_unat_eq_iff)
    have ih: "copy_images sc (cur + 1) cnt ?arr' =
           Inr (if ?n \<le> cnt then VK_SUCCESS else VK_INCOMPLETE, min cnt ?n,
                Some (map (\<lambda>j. if unat (cur + 1) \<le> j \<and> j < unat (min cnt ?n)
                                 then image_handle (imgs ! j) else ?arr' ! j) [0..<length ?arr']))"
      using "1.IH" [OF r _ refl more "1.prems"(1) _ lt more(2)] ca "1.prems"(2) by simp
    have m: "?c + 1 < unat (min cnt ?n)"
      using more(2) lt suc by (simp add: unat_min_word word_less_nat_alt)
    have "map (\<lambda>j. if unat (cur + 1) \<le> j \<and> j < unat (min cnt ?n)
                                 then image_handle (imgs ! j) else ?arr' ! j) [0..<length ?arr']
        = map (\<lambda>j. if ?c \<le> j \<and> j < unat (min cnt ?n)
                                 then image_handle (imgs ! j) else arr ! j) [0..<length arr]"
      using m ca by (intro nth_equalityI) (auto simp add: suc nth_list_update)
    then show ?thesis
      using more by (simp add: step ih)
  next
    case full
    have k: "unat cnt = ?c + 1"
      using full(2) ck suc by (simp add: word_less_nat_alt)
    have lt: "?c + 1 < unat ?n"
      using full(1) cn suc by (simp add: word_unat_eq_iff)
    have "\<not> ?n \<le> cnt" using k lt by (simp add: word_le_nat_alt)
    moreover have "min cnt ?n = cur + 1"
      using k lt suc by (simp add: min_def word_le_nat_alt word_unat_eq_iff)
    moreover have "copy_images sc cur cnt arr = Inr (VK_INCOMPLETE, cur + 1, Some ?arr')"
      using full by (simp add: step)
    ultimately show ?thesis
      using upd suc by simp
  qed
qed


text \<open>
  Claim C5, amended. With a null array \<open>get_swapchain_images\<close> writes the image count
  and returns \<open>SUCCESS\<close>. With an array, a swapchain of at least one image and a count of
  at least 1 (the two assertions of the source) that the array has room for, it copies
  the handles of the first \<open>min(count, image count)\<close> images and nothing else, writes
  that number back, and returns \<open>SUCCESS\<close> when these are all images, \<open>INCOMPLETE\<close>
  when they are fewer.
\<close>

theorem get_swapchain_images_outcome:
  "get_swapchain_images ndebug sc cnt None = Inr (VK_SUCCESS, m_num_swapchain_images sc, None) \<and>
   (images_wf sc imgs \<and> 0 < m_num_swapchain_images sc \<and> 0 < cnt \<and> unat cnt \<le> length arr \<longrightarrow>
      get_swapchain_images ndebug sc cnt (Some arr)
        = Inr (if m_num_swapchain_images sc \<le> cnt then VK_SUCCESS else VK_INCOMPLETE,
               min cnt (m_num_swapchain_images sc),
               Some (copied imgs (unat (min cnt (m_num_swapchain_images sc))) arr)))"
  using copy_images_from [of sc imgs cnt arr 0]
  by (simp add: get_swapchain_images_def copied_def)

theorem get_swapchain_images_outcome_witness:
  "images_wf example_swapchain example_images \<and>
   0 < m_num_swapchain_images example_swapchain \<and> (0 :: u32) < 2 \<and> unat (2 :: u32) \<le> length [0, 0, 0 :: u64] \<and>
   get_swapchain_images False example_swapchain 2 None = Inr (VK_SUCCESS, 3, None) \<and>
   get_swapchain_images False example_swapchain 2 (Some [0, 0, 0]) = Inr (VK_INCOMPLETE, 2, Some [101, 102, 0])"
proof -
  have wf: "images_wf example_swapchain example_images"
    by (simp add: images_wf_def example_swapchain_def example_images_def)
  have h: "0 < m_num_swapchain_images example_swapchain \<and> (0 :: u32) < 2 \<and> unat (2 :: u32) \<le> length [0, 0, 0 :: u64]"
    by (simp add: example_swapchain_def)
  have c: "copied example_images (unat (min 2 (m_num_swapchain_images example_swapchain))) [0, 0, 0] = [101, 102, 0]"
    by code_simp
  have n: "m_num_swapchain_images example_swapchain = 3"
    by (simp add: example_swapchain_def)
  show ?thesis
    using wf h c get_swapchain_images_outcome [where ndebug = False and sc = example_swapchain
        and imgs = example_images and cnt = 2 and arr = "[0, 0, 0]"]
    by (simp add: n)
qed

text \<open>
  Claim C5 as stated, for every call: it fails for a count of 0 with an array. Without
  assertions the \<open>do ... while\<close> loop copies one handle, more than the count allows, and
  writes back 1; with assertions the call aborts.
\<close>

theorem get_swapchain_images_zero_count:
  "get_swapchain_images True example_swapchain 0 (Some [0, 0, 0]) = Inr (VK_INCOMPLETE, 1, Some [101, 0, 0]) \<and>
   get_swapchain_images False example_swapchain 0 (Some [0, 0, 0]) = Inl AssertFail"
  by code_simp

lemma count_acquired_indices:
  assumes "m_swapchain_images sc = Some imgs" and "\<forall>i\<in>set is. i < length imgs"
  shows "count_acquired sc is n = Inr (n + of_nat (acquired_count (map (nth imgs) is)))"
  using assms(2) by (induction "is" arbitrary: n) (auto simp add: read_image_def assms(1) acquired_count_def)

lemma sint_decrement:
  fixes w :: c_int
  assumes pos: "0 < sint w"
  shows "sint (w - 1) = sint w - 1"
proof -
  have lt: "sint w < 2 ^ 31" using sint_lt [of w] by simp
  have "- (2 ^ 31) \<le> (0::int)" by simp
  then have "- (2 ^ 31) \<le> sint w - 1" using pos by linarith
  moreover have "sint w - 1 < 2 ^ 31" using lt by linarith
  ultimately have "signed_take_bit 31 (sint w - 1) = sint w - 1"
    by (rule signed_take_bit_int_eq_self)
  then show ?thesis by (simp add: sint_word_ariths)
qed

lemma wait_loop_calls:
  "length (snd (wait_loop sem_wait get_free_buffer w e done)) = length done + nat (sint w)"
proof (induction sem_wait get_free_buffer w e "done" rule: wait_loop.induct)
  case (1 sem_wait get_free_buffer w e "done")
  show ?case
  proof (cases "0 < sint w")
    case True
    obtain r e' where c: "wait_for_free_buffer sem_wait get_free_buffer UINT64_MAX e = (r, e')"
      by (cases "wait_for_free_buffer sem_wait get_free_buffer UINT64_MAX e")
    have "length (snd (wait_loop sem_wait get_free_buffer (w - 1) e' (done @ [r])))
            = length (done @ [r]) + nat (sint (w - 1))"
      using "1.IH" [OF True c [symmetric]] by simp
    then show ?thesis
      using True c by (subst wait_loop.simps) (simp add: sint_decrement nat_diff_distrib)
  next
    case False
    then show ?thesis by (subst wait_loop.simps) simp
  qed
qed

lemma acquired_count_le: "acquired_count imgs \<le> length imgs"
  by (simp add: acquired_count_def)

lemma sint_wait_value:
  assumes wf: "array_wf sc" and small: "length (images_of sc) < 2 ^ 31"
  shows "sint (wait_value sc (images_of sc))
         = int (length (images_of sc)) - int (acquired_count (images_of sc)) - 1"
proof -
  let ?imgs = "images_of sc"
  let ?k = "int (length ?imgs) - int (acquired_count ?imgs) - 1"
  have n: "m_num_swapchain_images sc = of_nat (length ?imgs)"
  proof -
    have "word_of_nat (unat (m_num_swapchain_images sc)) = m_num_swapchain_images sc" by simp
    moreover have "unat (m_num_swapchain_images sc) = length ?imgs"
      using wf by (simp add: array_wf_def)
    ultimately show ?thesis by (simp only:)
  qed
  have w: "wait_value sc ?imgs = word_of_int ?k"
    by (simp add: wait_value_def n)
  have "int (length ?imgs) < 2 ^ 31"
    using small by (metis of_nat_less_iff of_nat_numeral of_nat_power)
  then have hi: "?k < 2 ^ 31" by linarith
  have "- (2 ^ 31) \<le> (- 1 :: int)" by simp
  moreover have "- 1 \<le> ?k" using acquired_count_le [of ?imgs] by linarith
  ultimately have lo: "- (2 ^ 31) \<le> ?k" by (rule order_trans)
  have stb: "signed_take_bit 31 ?k = ?k"
    using lo hi by (rule signed_take_bit_int_eq_self)
  have s: "sint (word_of_int ?k :: c_int) = signed_take_bit 31 ?k"
    using signed_of_int [where 'a = int and 'b = 32 and n = ?k] by simp
  show ?thesis
    by (simp only: w s stb)
qed

lemma count_acquired_all:
  assumes wf: "array_wf sc"
  shows "count_acquired sc [0..<unat (m_num_swapchain_images sc)] 0
         = Inr (of_nat (acquired_count (images_of sc)))"
proof (cases "m_swapchain_images sc")
  case None
  then show ?thesis
    using wf by (simp add: array_wf_def images_of_def acquired_count_def)
next
  case (Some imgs)
  have "count_acquired sc [0..<length imgs] 0
          = Inr (0 + of_nat (acquired_count (map (nth imgs) [0..<length imgs])))"
    by (rule count_acquired_indices [OF Some]) simp
  then show ?thesis
    using wf Some by (simp add: map_nth array_wf_def images_of_def)
qed

lemma event_counts_append:
  "sem_waits (xs @ ys) = sem_waits xs + sem_waits ys"
  "blocking_waits (xs @ ys) = blocking_waits xs + blocking_waits ys"
  "successful_get_free_buffers (xs @ ys) = successful_get_free_buffers xs + successful_get_free_buffers ys"
  by (simp_all add: sem_waits_def blocking_waits_def successful_get_free_buffers_def)

lemma wait_for_pending_buffers_run:
  assumes wf: "array_wf sc"
  shows "wait_for_pending_buffers sem_wait get_free_buffer sc e
         = Inr (wait_loop sem_wait get_free_buffer (wait_value sc (images_of sc)) e [])"
  by (simp add: wait_for_pending_buffers_def count_acquired_all [OF wf] wait_value_def)

text \<open>The wrapped operations behave as the ones they wrap.\<close>

lemma traced_wait_for_free_buffer:
  "(case wait_for_free_buffer (traced_sem_wait sem_wait) (traced_get_free_buffer get_free_buffer) timeout (e, log) of
      (r, (e', log')) \<Rightarrow> (r, e'))
   = wait_for_free_buffer sem_wait get_free_buffer timeout e"
  by (auto simp add: wait_for_free_buffer_def traced_sem_wait_def traced_get_free_buffer_def
      split: prod.splits)

lemma traced_wait_loop:
  "(case wait_loop (traced_sem_wait sem_wait) (traced_get_free_buffer get_free_buffer) w (e, log) done of
      ((e', log'), rs) \<Rightarrow> (e', rs))
   = wait_loop sem_wait get_free_buffer w e done"
proof (induction "nat (sint w)" arbitrary: w e log "done")
  case 0
  then have "\<not> 0 < sint w" by simp
  then show ?case
    by (subst wait_loop.simps, subst (2) wait_loop.simps) simp
next
  case (Suc n)
  then have pos: "0 < sint w" by linarith
  have dec: "n = nat (sint (w - 1))"
    using Suc(2) sint_decrement [OF pos] by simp
  obtain r e1 log1 where
    c: "wait_for_free_buffer (traced_sem_wait sem_wait) (traced_get_free_buffer get_free_buffer) UINT64_MAX (e, log)
       = (r, (e1, log1))"
    by (metis surj_pair)
  then have u: "wait_for_free_buffer sem_wait get_free_buffer UINT64_MAX e = (r, e1)"
    using traced_wait_for_free_buffer [of sem_wait get_free_buffer UINT64_MAX e log] by simp
  show ?case
    using pos c u Suc(1) [OF dec, of e1 log1 "done @ [r]"]
    by (subst wait_loop.simps, subst (2) wait_loop.simps) simp
qed

lemma call_events_counts:
  "sem_waits (call_events c) = 1 + successful_get_free_buffers (call_events c)"
  "successful_get_free_buffers (call_events c) \<le> 1"
  "blocking_waits (call_events c) \<le> successful_get_free_buffers (call_events c)"
  by (cases c; simp add: sem_waits_def blocking_waits_def successful_get_free_buffers_def)+

lemma calls_events_counts:
  "sem_waits (concat (map call_events cs)) = length cs + successful_get_free_buffers (concat (map call_events cs))"
  "successful_get_free_buffers (concat (map call_events cs)) \<le> length cs"
  "blocking_waits (concat (map call_events cs)) \<le> successful_get_free_buffers (concat (map call_events cs))"
proof (induction cs)
  case Nil
  {
    case 1 show ?case by (simp add: sem_waits_def successful_get_free_buffers_def)
  next
    case 2 show ?case by (simp add: successful_get_free_buffers_def)
  next
    case 3 show ?case by (simp add: blocking_waits_def)
  }
next
  case (Cons c cs)
  {
    case 1 show ?case
      using Cons.IH(1) call_events_counts(1) [of c] by (simp add: event_counts_append)
  next
    case 2 show ?case
      using Cons.IH(2) call_events_counts(2) [of c] by (simp add: event_counts_append)
  next
    case 3 show ?case
      using Cons.IH(3) call_events_counts(3) [of c] by (simp add: event_counts_append)
  }
qed

lemma wait_for_free_buffer_call:
  "\<exists>c e'.
     wait_for_free_buffer (traced_sem_wait sem_wait) (traced_get_free_buffer get_free_buffer) UINT64_MAX (e, log)
       = (call_result c, (e', log @ call_events c))"
proof -
  obtain r0 e0 where p: "sem_wait 0 e = (r0, e0)" by (cases "sem_wait 0 e")
  obtain r1 t1 e1 where g: "get_free_buffer UINT64_MAX e0 = ((r1, t1), e1)"
    by (metis surj_pair)
  obtain r2 e2 where w: "sem_wait t1 e1 = (r2, e2)" by (cases "sem_wait t1 e1")
  let ?c = "(r0, r1, t1, r2)"
  let ?e' = "if r0 \<noteq> VK_NOT_READY then e0 else if r1 \<noteq> VK_SUCCESS then e1 else e2"
  have "wait_for_free_buffer (traced_sem_wait sem_wait) (traced_get_free_buffer get_free_buffer) UINT64_MAX (e, log)
       = (call_result ?c, (?e', log @ call_events ?c))"
    by (simp add: wait_for_free_buffer_def traced_sem_wait_def traced_get_free_buffer_def p g w)
  then show ?thesis by blast
qed

lemma wait_loop_calls_events:
  "\<exists>e' cs.
     wait_loop (traced_sem_wait sem_wait) (traced_get_free_buffer get_free_buffer) w (e, log) done
       = ((e', log @ concat (map call_events cs)), done @ map call_result cs) \<and>
     length cs = nat (sint w)"
proof (induction "nat (sint w)" arbitrary: w e log "done")
  case 0
  then have "\<not> 0 < sint w" by simp
  then have "wait_loop (traced_sem_wait sem_wait) (traced_get_free_buffer get_free_buffer) w (e, log) done
             = ((e, log @ concat (map call_events [])), done @ map call_result [])"
    by (subst wait_loop.simps) simp
  then show ?case
    using 0 by (intro exI [of _ e] exI [of _ "[]"]) simp
next
  case (Suc n)
  then have pos: "0 < sint w" by linarith
  have dec: "n = nat (sint (w - 1))"
    using Suc(2) sint_decrement [OF pos] by simp
  from wait_for_free_buffer_call [of sem_wait get_free_buffer e log]
  obtain c e1 where
    c: "wait_for_free_buffer (traced_sem_wait sem_wait) (traced_get_free_buffer get_free_buffer) UINT64_MAX (e, log)
       = (call_result c, (e1, log @ call_events c))"
    by blast
  from Suc(1) [OF dec, of e1 "log @ call_events c" "done @ [call_result c]"]
  obtain e' cs where
    l: "wait_loop (traced_sem_wait sem_wait) (traced_get_free_buffer get_free_buffer) (w - 1)
          (e1, log @ call_events c) (done @ [call_result c])
       = ((e', (log @ call_events c) @ concat (map call_events cs)), (done @ [call_result c]) @ map call_result cs)"
    and n: "length cs = nat (sint (w - 1))"
    by blast
  have "wait_loop (traced_sem_wait sem_wait) (traced_get_free_buffer get_free_buffer) w (e, log) done
          = ((e', log @ concat (map call_events (c # cs))), done @ map call_result (c # cs))"
    using pos c l by (subst wait_loop.simps) simp
  moreover have "length (c # cs) = nat (sint w)"
    using n dec Suc(2) by simp
  ultimately show ?case by blast
qed

text \<open>
  Claim C6, amended. For a swapchain whose image array holds \<open>m_num_swapchain_images\<close>
  images, \<open>wait_for_pending_buffers\<close> computes the \<open>int\<close> \<open>wait\<close> from the image count
  and the number of images in \<open>ACQUIRED\<close> in arithmetic of 32 bits; it is
  \<open>image_count - acquired - 1\<close> for every image count below \<open>2 ^ 31\<close>. It calls
  \<open>wait_for_free_buffer(UINT64_MAX)\<close> exactly \<open>max(wait, 0)\<close> times and does nothing
  else to the semaphore: what is done to it is the sequence of these calls (\<open>cs\<close>), each
  a poll with timeout 0, then a \<open>get_free_buffer\<close> if the poll was \<open>NOT_READY\<close>, then a
  wait with the timeout left if that succeeded. So the semaphore is waited on
  \<open>max(wait, 0)\<close> times plus once for every successful \<open>get_free_buffer\<close>, of which
  there are at most \<open>max(wait, 0)\<close>, and only these second waits can block. The run with
  the recording operations and the run with the operations themselves give the same
  result.
\<close>

theorem wait_for_pending_buffers_waits:
  assumes wf: "array_wf sc"
  shows "\<exists>e' cs.
           wait_for_pending_buffers (traced_sem_wait sem_wait) (traced_get_free_buffer get_free_buffer) sc (e, [])
             = Inr ((e', concat (map call_events cs)), map call_result cs) \<and>
           wait_for_pending_buffers sem_wait get_free_buffer sc e = Inr (e', map call_result cs) \<and>
           int (length cs) = max (sint (wait_value sc (images_of sc))) 0 \<and>
           sem_waits (concat (map call_events cs))
             = length cs + successful_get_free_buffers (concat (map call_events cs)) \<and>
           successful_get_free_buffers (concat (map call_events cs)) \<le> length cs \<and>
           blocking_waits (concat (map call_events cs))
             \<le> successful_get_free_buffers (concat (map call_events cs)) \<and>
           (length (images_of sc) < 2 ^ 31 \<longrightarrow>
              sint (wait_value sc (images_of sc))
                = int (length (images_of sc)) - int (acquired_count (images_of sc)) - 1)"
proof -
  let ?w = "wait_value sc (images_of sc)"
  let ?W = "traced_sem_wait sem_wait"
  let ?G = "traced_get_free_buffer get_free_buffer"
  from wait_loop_calls_events [of sem_wait get_free_buffer ?w e "[]" "[]"]
  obtain e' cs where
    l: "wait_loop ?W ?G ?w (e, []) [] = ((e', concat (map call_events cs)), map call_result cs)"
    and n: "length cs = nat (sint ?w)"
    by auto
  have r: "wait_for_pending_buffers ?W ?G sc (e, []) = Inr ((e', concat (map call_events cs)), map call_result cs)"
    by (simp add: wait_for_pending_buffers_run [OF wf] l)
  have u: "wait_for_pending_buffers sem_wait get_free_buffer sc e = Inr (e', map call_result cs)"
    using traced_wait_loop [of sem_wait get_free_buffer ?w e "[]" "[]"] l
    by (simp add: wait_for_pending_buffers_run [OF wf])
  have m: "int (length cs) = max (sint ?w) 0"
    using n by simp
  show ?thesis
    using r u m calls_events_counts [of cs] sint_wait_value [OF wf] by blast
qed

theorem wait_for_pending_buffers_waits_witness:
  "array_wf idle_swapchain \<and> length (images_of idle_swapchain) < 2 ^ 31 \<and>
   sint (wait_value idle_swapchain (images_of idle_swapchain)) = 2 \<and>
   (\<exists>e' cs.
      wait_for_pending_buffers (traced_sem_wait polled_sem_wait) (traced_get_free_buffer example_get_free_buffer)
        idle_swapchain ((), []) = Inr ((e', concat (map call_events cs)), map call_result cs) \<and>
      int (length cs) = 2 \<and>
      sem_waits (concat (map call_events cs)) = 2 + successful_get_free_buffers (concat (map call_events cs)) \<and>
      successful_get_free_buffers (concat (map call_events cs)) \<le> 2)"
proof -
  have i: "images_of idle_swapchain =
     [\<lparr>image_handle = 101, present_fence = 201, status = FREE, data = 0\<rparr>,
      \<lparr>image_handle = 102, present_fence = 202, status = FREE, data = 0\<rparr>,
      \<lparr>image_handle = 103, present_fence = 203, status = PRESENTED, data = 0\<rparr>]"
    by (simp add: images_of_def idle_swapchain_def)
  have wf: "array_wf idle_swapchain"
    by (simp add: array_wf_def i) (simp add: idle_swapchain_def example_swapchain_def)
  have small: "length (images_of idle_swapchain) < 2 ^ 31"
    by (simp add: i)
  have a: "int (length (images_of idle_swapchain)) - int (acquired_count (images_of idle_swapchain)) - 1 = 2"
    by (simp add: i acquired_count_def)
  from wait_for_pending_buffers_waits [OF wf,
      where sem_wait = polled_sem_wait and get_free_buffer = example_get_free_buffer and e = "()"]
  obtain e' cs where
    "wait_for_pending_buffers (traced_sem_wait polled_sem_wait) (traced_get_free_buffer example_get_free_buffer)
       idle_swapchain ((), []) = Inr ((e', concat (map call_events cs)), map call_result cs)"
    "int (length cs) = max (sint (wait_value idle_swapchain (images_of idle_swapchain))) 0"
    "sem_waits (concat (map call_events cs)) = length cs + successful_get_free_buffers (concat (map call_events cs))"
    "successful_get_free_buffers (concat (map call_events cs)) \<le> length cs"
    "length (images_of idle_swapchain) < 2 ^ 31 \<longrightarrow>
       sint (wait_value idle_swapchain (images_of idle_swapchain))
         = int (length (images_of idle_swapchain)) - int (acquired_count (images_of idle_swapchain)) - 1"
    by blast
  then show ?thesis using wf small a by auto
qed

lemma huge_swapchain_wait:
  "array_wf huge_swapchain"
  "int (length (images_of huge_swapchain)) - int (acquired_count (images_of huge_swapchain)) - 1 = 2147483648"
  "sint (wait_value huge_swapchain (images_of huge_swapchain)) = - 2147483648"
proof -
  have i: "images_of huge_swapchain = replicate 2147483649 free_image"
    by (simp add: images_of_def huge_swapchain_def)
  have a: "acquired_count (replicate 2147483649 free_image) = 0"
    by (simp add: acquired_count_def free_image_def)
  show "array_wf huge_swapchain"
    by (simp add: array_wf_def i) (simp add: huge_swapchain_def)
  show "int (length (images_of huge_swapchain)) - int (acquired_count (images_of huge_swapchain)) - 1 = 2147483648"
    by (simp add: i a)
  have "wait_value huge_swapchain (images_of huge_swapchain) = 2147483648"
    by (simp add: wait_value_def i a) (simp add: huge_swapchain_def)
  then show "sint (wait_value huge_swapchain (images_of huge_swapchain)) = - 2147483648"
    by simp
qed

text \<open>
  Claim C6 as stated, \<open>max(wait, 0)\<close> blocking waits with
  \<open>wait = image_count - acquired - 1\<close> in every state: it fails. With three images, none
  acquired, \<open>wait\<close> is 2; when the semaphore is ready, it is polled twice and never waited
  for with a timeout, and when it is not ready at the polls, it is waited on four times.
  With \<open>2 ^ 31 + 1\<close> free images \<open>image_count - acquired - 1\<close> is \<open>2 ^ 31\<close>, the
  \<open>int\<close> \<open>wait\<close> is negative and the semaphore is not waited on at all.
\<close>

theorem waits_on_the_semaphore_differ_from_wait:
  "sint (wait_value idle_swapchain (images_of idle_swapchain)) = 2 \<and>
   wait_for_pending_buffers (traced_sem_wait ready_sem_wait) (traced_get_free_buffer example_get_free_buffer)
     idle_swapchain ((), [])
     = Inr (((), [SemWait 0 VK_SUCCESS, SemWait 0 VK_SUCCESS]), [VK_SUCCESS, VK_SUCCESS]) \<and>
   blocking_waits [SemWait 0 VK_SUCCESS, SemWait 0 VK_SUCCESS] = 0 \<and>
   wait_for_pending_buffers (traced_sem_wait polled_sem_wait) (traced_get_free_buffer example_get_free_buffer)
     idle_swapchain ((), [])
     = Inr (((), [SemWait 0 VK_NOT_READY, GetFreeBuffer UINT64_MAX VK_SUCCESS UINT64_MAX,
                  SemWait UINT64_MAX VK_SUCCESS,
                  SemWait 0 VK_NOT_READY, GetFreeBuffer UINT64_MAX VK_SUCCESS UINT64_MAX,
                  SemWait UINT64_MAX VK_SUCCESS]), [VK_SUCCESS, VK_SUCCESS]) \<and>
   sem_waits [SemWait 0 VK_NOT_READY, GetFreeBuffer UINT64_MAX VK_SUCCESS UINT64_MAX,
              SemWait UINT64_MAX VK_SUCCESS,
              SemWait 0 VK_NOT_READY, GetFreeBuffer UINT64_MAX VK_SUCCESS UINT64_MAX,
              SemWait UINT64_MAX VK_SUCCESS] = 4 \<and>
   int (length (images_of huge_swapchain)) - int (acquired_count (images_of huge_swapchain)) - 1 = 2147483648 \<and>
   wait_for_pending_buffers (traced_sem_wait polled_sem_wait) (traced_get_free_buffer example_get_free_buffer)
     huge_swapchain ((), [])
     = Inr (((), []), [])"
proof -
  have small: "sint (wait_value idle_swapchain (images_of idle_swapchain)) = 2 \<and>
   wait_for_pending_buffers (traced_sem_wait ready_sem_wait) (traced_get_free_buffer example_get_free_buffer)
     idle_swapchain ((), [])
     = Inr (((), [SemWait 0 VK_SUCCESS, SemWait 0 VK_SUCCESS]), [VK_SUCCESS, VK_SUCCESS]) \<and>
   blocking_waits [SemWait 0 VK_SUCCESS, SemWait 0 VK_SUCCESS] = 0 \<and>
   wait_for_pending_buffers (traced_sem_wait polled_sem_wait) (traced_get_free_buffer example_get_free_buffer)
     idle_swapchain ((), [])
     = Inr (((), [SemWait 0 VK_NOT_READY, GetFreeBuffer UINT64_MAX VK_SUCCESS UINT64_MAX,
                  SemWait UINT64_MAX VK_SUCCESS,
                  SemWait 0 VK_NOT_READY, GetFreeBuffer UINT64_MAX VK_SUCCESS UINT64_MAX,
                  SemWait UINT64_MAX VK_SUCCESS]), [VK_SUCCESS, VK_SUCCESS]) \<and>
   sem_waits [SemWait 0 VK_NOT_READY, GetFreeBuffer UINT64_MAX VK_SUCCESS UINT64_MAX,
              SemWait UINT64_MAX VK_SUCCESS,
              SemWait 0 VK_NOT_READY, GetFreeBuffer UINT64_MAX VK_SUCCESS UINT64_MAX,
              SemWait UINT64_MAX VK_SUCCESS] = 4"
    by code_simp
  have "wait_loop (traced_sem_wait polled_sem_wait) (traced_get_free_buffer example_get_free_buffer)
          (wait_value huge_swapchain (images_of huge_swapchain)) ((), []) [] = (((), []), [])"
    by (subst wait_loop.simps) (simp add: huge_swapchain_wait(3))
  then have "wait_for_pending_buffers (traced_sem_wait polled_sem_wait) (traced_get_free_buffer example_get_free_buffer)
     huge_swapchain ((), []) = Inr (((), []), [])"
    by (simp add: wait_for_pending_buffers_run [OF huge_swapchain_wait(1)])
  then show ?thesis
    using small huge_swapchain_wait(2) by simp
qed

section \<open>Initialisation of the swapchain\<close>

text \<open>
  Claim C9. The check of \<open>res\<close> that precedes \<open>sem_init\<close> is made before anything has
  assigned \<open>res\<close>, and the result of \<open>init\<close> is claimed not to depend on it. It does:
  \<open>res\<close> holds whatever its storage held. On a request for which every allocation and
  every call succeeds, \<open>init\<close> returns \<open>SUCCESS\<close> when that value is 0; when it is 1,
  \<open>init\<close> returns \<open>OUT_OF_HOST_MEMORY\<close> from that check, and with assertions enabled
  the assertion before it fails.
\<close>

theorem init_depends_on_unassigned_res:
  "returned (init True succeeding_env empty_store constructed_swapchain 0x3000 1 fifo_create_info 0)
     = Inr VK_SUCCESS \<and>
   returned (init True succeeding_env empty_store constructed_swapchain 0x3000 1 fifo_create_info 1)
     = Inr VK_ERROR_OUT_OF_HOST_MEMORY \<and>
   returned (init False succeeding_env empty_store constructed_swapchain 0x3000 1 fifo_create_info 1)
     = Inl AssertFail"
  by code_simp

end
